theory Spec2Isabelle
  imports Complex_Main
begin

section \<open>The JavaScript values the handler works on\<close>

text \<open>
  \<^verbatim>\<open>api/mcp.js\<close> is one edge function. It reads JSON (the request body and the
  upstream payload), probes it with property reads, \<^verbatim>\<open>||\<close> and template literals, and
  writes text. The embedding therefore starts with the values of the language: numbers
  (IEEE doubles), strings, arrays and objects as \<^verbatim>\<open>JSON.parse\<close> delivers them, and the
  runtime's conversions (\<^verbatim>\<open>ToBoolean\<close>, \<^verbatim>\<open>ToString\<close>, \<^verbatim>\<open>Number.prototype.toFixed\<close>).
  Exceptions are values of type \<open>js_error\<close>; a computation that may throw returns
  \<open>js_error + 'a\<close> with \<open>Inl\<close> for the exception.
\<close>

subsection \<open>Numbers\<close>

text \<open>
  A Number is a double: a finite value (held as the rational it denotes), an infinity
  or NaN. Negative zero is identified with zero: both are falsy, both print as \<^verbatim>\<open>0\<close>
  and \<^verbatim>\<open>toFixed\<close> gives the same for both, so that they differ only where a locale
  prints the sign of a negative zero nested in an array.
\<close>

datatype jsnum = Fin rat | PInf | NInf | NaN

definition pow_int :: "int \<Rightarrow> int \<Rightarrow> rat" where
  "pow_int b e = (if 0 \<le> e then of_int (b ^ nat e) else 1 / of_int (b ^ nat (- e)))"

text \<open>
  \<open>width b n\<close> is the number of base-\<open>b\<close> digits of \<open>n\<close>. Large quantities
  (significands, scaled decimals) are integers of type \<open>int\<close> throughout.
\<close>

function width :: "int \<Rightarrow> int \<Rightarrow> nat" where
  "width b n = (if n \<le> 0 \<or> b < 2 then 0 else Suc (width b (n div b)))"
  by pat_completeness auto
termination
  by (relation "measure (\<lambda>(b, n). nat n)") (auto simp: pos_imp_zdiv_pos_iff intro!: int_div_less_self)

declare width.simps [simp del]

text \<open>For \<open>0 < r\<close>, \<open>floor_log b r\<close> is the integer \<open>e\<close> with \<open>b ^ e \<le> r < b ^ (e + 1)\<close>.\<close>

definition floor_log :: "int \<Rightarrow> rat \<Rightarrow> int" where
  "floor_log b r =
     (let (p, q) = quotient_of r;
          e0 = int (width b p) - int (width b q)
      in if (if 0 \<le> e0 then b ^ nat e0 * q \<le> p else q \<le> p * b ^ nat (- e0))
         then e0 else e0 - 1)"

text \<open>The quotient \<open>a / b\<close> of two integers, \<open>0 < b\<close>, rounded to the nearest integer, ties to even.\<close>

definition round_div :: "int \<Rightarrow> int \<Rightarrow> int" where
  "round_div a b =
     (let f = a div b; d = 2 * (a mod b)
      in if d < b then f else if b < d then f + 1 else if even f then f else f + 1)"

text \<open>
  Rounding a positive real to the nearest double, ties to even: a significand of at
  most 53 bits, and the exponent \<open>sh\<close> of its last bit, no smaller than \<open>-1074\<close>
  (subnormals). The double is \<open>m * 2 ^ sh\<close>.
\<close>

definition round_mag :: "rat \<Rightarrow> int \<times> int" where
  "round_mag r =
     (let (p, q) = quotient_of r;
          sh = max (floor_log 2 r - 52) (- 1074)
      in (if 0 \<le> sh then round_div p (q * 2 ^ nat sh) else round_div (p * 2 ^ nat (- sh)) q, sh))"

text \<open>From \<open>2 ^ 1024\<close> on, the rounded magnitude is an infinity.\<close>

definition overflows :: "int \<times> int \<Rightarrow> bool" where
  "overflows ms = (case ms of (m, sh) \<Rightarrow> 971 < sh \<or> (sh = 971 \<and> 2 ^ 53 \<le> m))"

definition mag_value :: "int \<times> int \<Rightarrow> rat" where
  "mag_value ms = (case ms of (m, sh) \<Rightarrow> of_int m * pow_int 2 sh)"

text \<open>
  \<open>to_double r\<close> is the Number value for the real \<open>r\<close>: what a numeric literal of a
  JSON text denotes, and what an arithmetic operation returns for its exact result.
\<close>

definition to_double :: "rat \<Rightarrow> jsnum" where
  "to_double r =
     (if r = 0 then Fin 0
      else if 0 < r
        then (let ms = round_mag r in if overflows ms then PInf else Fin (mag_value ms))
        else (let ms = round_mag (- r) in if overflows ms then NInf else Fin (- mag_value ms)))"

text \<open>The operator \<^verbatim>\<open>*\<close> on two Numbers.\<close>

fun num_mult :: "jsnum \<Rightarrow> jsnum \<Rightarrow> jsnum" where
  "num_mult NaN _ = NaN"
| "num_mult _ NaN = NaN"
| "num_mult (Fin a) (Fin b) = to_double (a * b)"
| "num_mult (Fin a) PInf = (if a = 0 then NaN else if 0 < a then PInf else NInf)"
| "num_mult (Fin a) NInf = (if a = 0 then NaN else if 0 < a then NInf else PInf)"
| "num_mult PInf (Fin b) = (if b = 0 then NaN else if 0 < b then PInf else NInf)"
| "num_mult NInf (Fin b) = (if b = 0 then NaN else if 0 < b then NInf else PInf)"
| "num_mult PInf PInf = PInf"
| "num_mult PInf NInf = NInf"
| "num_mult NInf PInf = NInf"
| "num_mult NInf NInf = PInf"

subsection \<open>Numbers to text\<close>

definition digit_char :: "int \<Rightarrow> char" where
  "digit_char d = ''0123456789'' ! nat d"

text \<open>The decimal digits of an integer that is not negative.\<close>

function show_int :: "int \<Rightarrow> string" where
  "show_int n =
     (if n < 10 then [digit_char n] else show_int (n div 10) @ [digit_char (n mod 10)])"
  by pat_completeness auto
termination
  by (relation "measure nat") (auto intro!: int_div_less_self)

declare show_int.simps [simp del]

definition show_nat :: "nat \<Rightarrow> string" where
  "show_nat n = show_int (int n)"

text \<open>
  \<^verbatim>\<open>Number::toString\<close> writes a finite non-zero \<open>x\<close> with the fewest digits \<open>k\<close> such that
  the decimal \<open>s * 10 ^ (n - k)\<close> still reads back as \<open>x\<close>. \<open>candidate x n k\<close> looks for
  such a decimal of \<open>k\<close> digits: only the two neighbours of \<open>x\<close> on that grid can be the
  closest one.
\<close>

definition candidate :: "rat \<Rightarrow> int \<Rightarrow> nat \<Rightarrow> (int \<times> int) option" where
  "candidate x n k =
     (let u = pow_int 10 (n - int k);
          lo = \<lfloor>x / u\<rfloor>;
          hi = lo + 1;
          ok_lo = (to_double (of_int lo * u) = Fin x);
          ok_hi = (to_double (of_int hi * u) = Fin x);
          d_lo = x - of_int lo * u;
          d_hi = of_int hi * u - x
      in if ok_lo \<and> (\<not> ok_hi \<or> d_lo < d_hi \<or> (d_lo = d_hi \<and> even lo)) then Some (lo, n)
         else if ok_hi then (if hi = 10 ^ k then Some (10 ^ (k - 1), n + 1) else Some (hi, n))
         else None)"

text \<open>Seventeen digits always identify a double; the fuel counts them down.\<close>

fun shortest :: "rat \<Rightarrow> int \<Rightarrow> nat \<Rightarrow> nat \<Rightarrow> int \<times> int" where
  "shortest x n 0 k = (\<lfloor>x / pow_int 10 (n - int k)\<rfloor>, n)"
| "shortest x n (Suc fuel) k =
     (case candidate x n k of Some r \<Rightarrow> r | None \<Rightarrow> shortest x n fuel (Suc k))"

definition format_digits :: "int \<Rightarrow> int \<Rightarrow> string" where
  "format_digits s n =
     (let ds = show_int s; k = int (length ds)
      in if k \<le> n \<and> n \<le> 21 then ds @ replicate (nat (n - k)) CHR ''0''
         else if 0 < n \<and> n \<le> 21 then take (nat n) ds @ ''.'' @ drop (nat n) ds
         else if - 6 < n \<and> n \<le> 0 then ''0.'' @ replicate (nat (- n)) CHR ''0'' @ ds
         else (let e = n - 1;
                   es = (if e < 0 then ''-'' else ''+'') @ show_int \<bar>e\<bar>
               in if k = 1 then ds @ ''e'' @ es
                  else take 1 ds @ ''.'' @ drop 1 ds @ ''e'' @ es))"

definition pos_to_string :: "rat \<Rightarrow> string" where
  "pos_to_string x = (case shortest x (floor_log 10 x + 1) 17 1 of (s, n) \<Rightarrow> format_digits s n)"

fun num_to_string :: "jsnum \<Rightarrow> string" where
  "num_to_string NaN = ''NaN''"
| "num_to_string PInf = ''Infinity''"
| "num_to_string NInf = ''-Infinity''"
| "num_to_string (Fin r) =
     (if r = 0 then ''0'' else if r < 0 then ''-'' @ pos_to_string (- r) else pos_to_string r)"

text \<open>
  \<^verbatim>\<open>Number.prototype.toFixed(f)\<close>: the integer \<open>n\<close> nearest to \<open>x * 10 ^ f\<close> (the larger
  one on a tie), written with \<open>f\<close> digits after the point; from \<open>10 ^ 21\<close> on, and for
  the values that are not finite, the text of \<^verbatim>\<open>ToString\<close>.
\<close>

definition fixed_mag :: "nat \<Rightarrow> rat \<Rightarrow> string" where
  "fixed_mag f x =
     (if 10 ^ 21 \<le> x then pos_to_string x
      else (let m = show_int \<lfloor>x * 10 ^ f + 1 / 2\<rfloor>
            in if f = 0 then m
               else (let m' = replicate (f + 1 - length m) CHR ''0'' @ m; k = length m'
                     in take (k - f) m' @ ''.'' @ drop (k - f) m')))"

fun to_fixed :: "nat \<Rightarrow> jsnum \<Rightarrow> string" where
  "to_fixed f (Fin r) = (if r < 0 then ''-'' @ fixed_mag f (- r) else fixed_mag f r)"
| "to_fixed f PInf = ''Infinity''"
| "to_fixed f NInf = ''-Infinity''"
| "to_fixed f NaN = ''NaN''"

subsection \<open>Values\<close>

text \<open>
  The values \<^verbatim>\<open>JSON.parse\<close> can deliver, the value \<^verbatim>\<open>undefined\<close> of a missing
  property, and \<open>JBuiltin\<close>: a function or prototype object of the standard library,
  which a computed property read such as \<^verbatim>\<open>data.outcomeprices[o]\<close> finds on the
  prototype chain when \<^verbatim>\<open>o\<close> is, say, \<^verbatim>\<open>"constructor"\<close>. An object is the list of its
  own properties with distinct keys; a string is a list of code units.
\<close>

datatype jsval =
    JUndefined
  | JNull
  | JBool bool
  | JNum jsnum
  | JStr string
  | JArr "jsval list"
  | JObj "(string \<times> jsval) list"
  | JBuiltin string

subsection \<open>Exceptions\<close>

datatype js_error = JsError (err_name: string) (err_message: string)

text \<open>\<^verbatim>\<open>new Error(message)\<close>, as the program throws it.\<close>

definition Error :: "string \<Rightarrow> js_error" where
  "Error m = JsError ''Error'' m"

text \<open>\<^verbatim>\<open>Error.prototype.toString\<close>.\<close>

definition error_toString :: "js_error \<Rightarrow> string" where
  "error_toString e =
     (if err_name e = [] then err_message e
      else if err_message e = [] then err_name e
      else err_name e @ '': '' @ err_message e)"

fun bindE :: "js_error + 'a \<Rightarrow> ('a \<Rightarrow> js_error + 'b) \<Rightarrow> js_error + 'b" where
  "bindE (Inl e) f = Inl e"
| "bindE (Inr v) f = f v"

text \<open>The \<^verbatim>\<open>TypeError\<close>s the engine itself raises, by cause.\<close>

datatype fault =
    ReadOfNullish jsval string
  | NotAFunction string
  | NotPrimitive

subsection \<open>The host\<close>

text \<open>
  What the host decides and the source does not: the members of the built-in
  prototypes, the text of a built-in function, the wording of the engine's \<^verbatim>\<open>TypeError\<close>
  messages and the default locale's number format.
\<close>

record runtime =
  inherited :: "jsval \<Rightarrow> string \<Rightarrow> jsval"
  builtin_text :: "string \<Rightarrow> string"
  fault_message :: "fault \<Rightarrow> string"
  locale_number :: "jsnum \<Rightarrow> string"

definition TypeError :: "runtime \<Rightarrow> fault \<Rightarrow> js_error" where
  "TypeError rt f = JsError ''TypeError'' (fault_message rt f)"

subsection \<open>Conversions and property reads\<close>

text \<open>\<^verbatim>\<open>ToBoolean\<close>.\<close>

fun truthy :: "jsval \<Rightarrow> bool" where
  "truthy JUndefined = False"
| "truthy JNull = False"
| "truthy (JBool b) = b"
| "truthy (JNum (Fin r)) = (r \<noteq> 0)"
| "truthy (JNum NaN) = False"
| "truthy (JNum PInf) = True"
| "truthy (JNum NInf) = True"
| "truthy (JStr s) = (s \<noteq> [])"
| "truthy (JArr xs) = True"
| "truthy (JObj kvs) = True"
| "truthy (JBuiltin f) = True"

text \<open>The operator \<^verbatim>\<open>||\<close>.\<close>

definition js_or :: "jsval \<Rightarrow> jsval \<Rightarrow> jsval" where
  "js_or a b = (if truthy a then a else b)"

fun nullish :: "jsval \<Rightarrow> bool" where
  "nullish JUndefined = True"
| "nullish JNull = True"
| "nullish _ = False"

text \<open>
  \<^verbatim>\<open>ToString\<close>, which a template literal applies to each substitution. An array joins
  its elements with commas, \<^verbatim>\<open>null\<close> and \<^verbatim>\<open>undefined\<close> elements as the empty string.
  An object parsed from JSON prints as \<^verbatim>\<open>[object Object]\<close> unless it has an own
  \<^verbatim>\<open>toString\<close> property: that one is never callable, \<^verbatim>\<open>valueOf\<close> returns no primitive,
  and the conversion throws.
\<close>

fun to_string :: "runtime \<Rightarrow> jsval \<Rightarrow> js_error + string"
  and join_elements :: "runtime \<Rightarrow> jsval list \<Rightarrow> js_error + string" where
  "to_string rt JUndefined = Inr ''undefined''"
| "to_string rt JNull = Inr ''null''"
| "to_string rt (JBool b) = Inr (if b then ''true'' else ''false'')"
| "to_string rt (JNum n) = Inr (num_to_string n)"
| "to_string rt (JStr s) = Inr s"
| "to_string rt (JArr xs) = join_elements rt xs"
| "to_string rt (JObj kvs) =
     (if map_of kvs ''toString'' = None then Inr ''[object Object]''
      else Inl (TypeError rt NotPrimitive))"
| "to_string rt (JBuiltin f) = Inr (builtin_text rt f)"
| "join_elements rt [] = Inr []"
| "join_elements rt (x # xs) =
     bindE (if nullish x then Inr [] else to_string rt x)
       (\<lambda>s. if xs = [] then Inr s
            else bindE (join_elements rt xs) (\<lambda>r. Inr (s @ '','' @ r)))"

text \<open>
  The own properties of a value: those of an object, and the \<^verbatim>\<open>length\<close> and the
  indices of an array or a string.
\<close>

fun own_prop :: "jsval \<Rightarrow> string \<Rightarrow> jsval option" where
  "own_prop (JObj kvs) k = map_of kvs k"
| "own_prop (JArr xs) k =
     (if k = ''length'' then Some (JNum (Fin (of_nat (length xs))))
      else map_option (\<lambda>i. xs ! i) (List.find (\<lambda>i. show_nat i = k) [0..<length xs]))"
| "own_prop (JStr s) k =
     (if k = ''length'' then Some (JNum (Fin (of_nat (length s))))
      else map_option (\<lambda>i. JStr [s ! i]) (List.find (\<lambda>i. show_nat i = k) [0..<length s]))"
| "own_prop _ k = None"

text \<open>
  \<^verbatim>\<open>v.k\<close> for the names the source writes after a dot and reads from JSON. None of
  them (\<^verbatim>\<open>id\<close>, \<^verbatim>\<open>method\<close>, \<^verbatim>\<open>params\<close>, \<^verbatim>\<open>name\<close>, \<^verbatim>\<open>arguments\<close>, \<^verbatim>\<open>market_id\<close>,
  \<^verbatim>\<open>question\<close>, \<^verbatim>\<open>length\<close>, ...) is a member of a built-in prototype, so the read finds an
  own property or \<^verbatim>\<open>undefined\<close>. Reading from \<^verbatim>\<open>undefined\<close> or \<^verbatim>\<open>null\<close> throws. The
  methods the source calls (\<^verbatim>\<open>map\<close>, \<^verbatim>\<open>forEach\<close>, \<^verbatim>\<open>toFixed\<close>, \<^verbatim>\<open>toLocaleString\<close>) are
  modelled where they are called, by the kind of the receiver.
\<close>

definition field :: "jsval \<Rightarrow> string \<Rightarrow> jsval" where
  "field v k = (case own_prop v k of Some x \<Rightarrow> x | None \<Rightarrow> JUndefined)"

definition get_prop :: "runtime \<Rightarrow> jsval \<Rightarrow> string \<Rightarrow> js_error + jsval" where
  "get_prop rt v k = (if nullish v then Inl (TypeError rt (ReadOfNullish v k)) else Inr (field v k))"

text \<open>\<^verbatim>\<open>v[k]\<close> for a computed key: an own property, or else what the prototype chain holds.\<close>

definition get_computed :: "runtime \<Rightarrow> jsval \<Rightarrow> string \<Rightarrow> js_error + jsval" where
  "get_computed rt v k =
     (if nullish v then Inl (TypeError rt (ReadOfNullish v k))
      else Inr (case own_prop v k of Some x \<Rightarrow> x | None \<Rightarrow> inherited rt v k))"

text \<open>
  \<^verbatim>\<open>v.toLocaleString()\<close>, \<open>callee\<close> being the source text of the call for the engine's
  message. A number is formatted by the locale; a string is itself; an array joins what
  its elements give; everything else inherits \<^verbatim>\<open>Object.prototype.toLocaleString\<close>, which
  calls \<^verbatim>\<open>toString\<close>. An own property of either name is not callable.
\<close>

fun to_locale_string :: "runtime \<Rightarrow> string \<Rightarrow> jsval \<Rightarrow> js_error + string"
  and locale_elements :: "runtime \<Rightarrow> jsval list \<Rightarrow> js_error + string" where
  "to_locale_string rt callee JUndefined = Inl (TypeError rt (ReadOfNullish JUndefined ''toLocaleString''))"
| "to_locale_string rt callee JNull = Inl (TypeError rt (ReadOfNullish JNull ''toLocaleString''))"
| "to_locale_string rt callee (JBool b) = Inr (if b then ''true'' else ''false'')"
| "to_locale_string rt callee (JNum n) = Inr (locale_number rt n)"
| "to_locale_string rt callee (JStr s) = Inr s"
| "to_locale_string rt callee (JArr xs) = locale_elements rt xs"
| "to_locale_string rt callee (JObj kvs) =
     (if map_of kvs ''toLocaleString'' \<noteq> None then Inl (TypeError rt (NotAFunction callee))
      else if map_of kvs ''toString'' \<noteq> None then Inl (TypeError rt (NotAFunction ''this.toString''))
      else Inr ''[object Object]'')"
| "to_locale_string rt callee (JBuiltin f) = Inr (builtin_text rt f)"
| "locale_elements rt [] = Inr []"
| "locale_elements rt (x # xs) =
     bindE (if nullish x then Inr [] else to_locale_string rt ''toLocaleString'' x)
       (\<lambda>s. if xs = [] then Inr s
            else bindE (locale_elements rt xs) (\<lambda>r. Inr (s @ '','' @ r)))"

section \<open>The upstream client\<close>

text \<open>
  \<^verbatim>\<open>callPolymarketAPI(endpoint, params)\<close> builds a URL, appends the parameters that are
  neither \<^verbatim>\<open>undefined\<close> nor \<^verbatim>\<open>null\<close>, and fetches it. What the upstream sees is the
  string given to \<^verbatim>\<open>new URL\<close> and the pairs appended to its search parameters, in
  order; what it answers is the outcome of \<^verbatim>\<open>fetch\<close>: a rejection, or a response with
  its status and what \<^verbatim>\<open>text()\<close> and \<^verbatim>\<open>json()\<close> give for its body.
\<close>

record url_request =
  url_text :: string
  search :: "(string \<times> string) list"

datatype fetch_outcome =
    Rejected js_error
  | Response nat "js_error + string" "js_error + jsval"

type_synonym upstream = "url_request \<Rightarrow> fetch_outcome"

definition baseUrl :: string where
  "baseUrl = ''https://gamma-api.polymarket.com''"

text \<open>\<^verbatim>\<open>response.ok\<close>.\<close>

definition response_ok :: "nat \<Rightarrow> bool" where
  "response_ok st = (200 \<le> st \<and> st \<le> 299)"

text \<open>
  The loop over \<^verbatim>\<open>Object.keys(params)\<close>; \<^verbatim>\<open>searchParams.append\<close> converts the value
  to a string.
\<close>

fun append_params :: "runtime \<Rightarrow> (string \<times> jsval) list \<Rightarrow> js_error + (string \<times> string) list" where
  "append_params rt [] = Inr []"
| "append_params rt ((key, v) # rest) =
     (if \<not> nullish v
      then bindE (to_string rt v) (\<lambda>s. bindE (append_params rt rest) (\<lambda>q. Inr ((key, s) # q)))
      else append_params rt rest)"

text \<open>
  The first half of \<^verbatim>\<open>callPolymarketAPI\<close>: the URL. \<open>params\<close> is \<open>None\<close> where the
  caller passes no second argument.
\<close>

definition build_url ::
  "runtime \<Rightarrow> string \<Rightarrow> (string \<times> jsval) list option \<Rightarrow> js_error + url_request" where
  "build_url rt endpoint params =
     bindE (case params of None \<Rightarrow> Inr [] | Some ps \<Rightarrow> append_params rt ps)
       (\<lambda>q. Inr \<lparr>url_text = baseUrl @ endpoint, search = q\<rparr>)"

text \<open>
  The second half, its \<^verbatim>\<open>try\<close> block: the \<^verbatim>\<open>catch\<close> logs and rethrows, so every failure
  is the result.
\<close>

definition fetch_json :: "upstream \<Rightarrow> url_request \<Rightarrow> js_error + jsval" where
  "fetch_json fetch url =
     (case fetch url of
        Rejected e \<Rightarrow> Inl e
      | Response st txt js \<Rightarrow>
          if \<not> response_ok st
          then bindE txt (\<lambda>errorText.
                 Inl (Error (''Polymarket API error: '' @ show_nat st @ '' - '' @ errorText)))
          else js)"

definition callPolymarketAPI ::
  "runtime \<Rightarrow> upstream \<Rightarrow> string \<Rightarrow> (string \<times> jsval) list option \<Rightarrow> js_error + jsval" where
  "callPolymarketAPI rt fetch endpoint params =
     bindE (build_url rt endpoint params) (fetch_json fetch)"

section \<open>The tools\<close>

text \<open>\<^verbatim>\<open>a || b\<close> on computations: \<open>b\<close> is evaluated only when \<open>a\<close> is falsy.\<close>

definition or_else :: "js_error + jsval \<Rightarrow> js_error + jsval \<Rightarrow> js_error + jsval" where
  "or_else a b = bindE a (\<lambda>x. if truthy x then Inr x else b)"

text \<open>\<^verbatim>\<open>a && b\<close> on computations: \<open>b\<close> is evaluated only when \<open>a\<close> is truthy.\<close>

definition and_then :: "js_error + jsval \<Rightarrow> js_error + jsval \<Rightarrow> js_error + jsval" where
  "and_then a b = bindE a (\<lambda>x. if truthy x then b else Inr x)"

fun mapE :: "('a \<Rightarrow> js_error + 'b) \<Rightarrow> 'a list \<Rightarrow> js_error + 'b list" where
  "mapE f [] = Inr []"
| "mapE f (x # xs) = bindE (f x) (\<lambda>y. bindE (mapE f xs) (\<lambda>ys. Inr (y # ys)))"

text \<open>\<^verbatim>\<open>Array.prototype.join\<close> on an array of strings.\<close>

fun join :: "string \<Rightarrow> string list \<Rightarrow> string" where
  "join sep [] = []"
| "join sep [x] = x"
| "join sep (x # y # ys) = x @ sep @ join sep (y # ys)"

definition not_found_text :: string where
  "not_found_text = ''Market not found. Please check the market ID or slug.''"

definition no_markets_text :: string where
  "no_markets_text = ''No markets found with the specified criteria.''"

subsection \<open>get-market-info\<close>

text \<open>The arrow function \<^verbatim>\<open>o => `${o}: $${data.outcomeprices[o] || 'N/A'}`\<close>.\<close>

definition outcome_price_text :: "runtime \<Rightarrow> jsval \<Rightarrow> jsval \<Rightarrow> js_error + string" where
  "outcome_price_text rt data outcome =
     bindE (to_string rt outcome) (\<lambda>name.
     bindE (get_prop rt data ''outcomeprices'') (\<lambda>prices.
     bindE (get_computed rt prices name) (\<lambda>price.
     bindE (to_string rt (js_or price (JStr ''N/A''))) (\<lambda>p.
     Inr (name @ '': $'' @ p)))))"

text \<open>The substitution of the \<^verbatim>\<open>Outcome Prices\<close> line.\<close>

definition outcome_prices_text :: "runtime \<Rightarrow> jsval \<Rightarrow> js_error + string" where
  "outcome_prices_text rt data =
     bindE (get_prop rt data ''outcomes'') (\<lambda>outcomes.
       if truthy outcomes
       then (case outcomes of
               JArr os \<Rightarrow> bindE (mapE (outcome_price_text rt data) os) (\<lambda>ts. Inr (join '', '' ts))
             | _ \<Rightarrow> Inl (TypeError rt (NotAFunction ''data.outcomes.map'')))
       else Inr ''N/A'')"

text \<open>The template literal of the report, its substitutions evaluated in order.\<close>

definition market_report :: "runtime \<Rightarrow> jsval \<Rightarrow> js_error + string" where
  "market_report rt data =
     bindE (bindE (or_else (or_else (get_prop rt data ''question'') (get_prop rt data ''title''))
                     (Inr (JStr ''N/A''))) (to_string rt)) (\<lambda>title.
     bindE (bindE (or_else (get_prop rt data ''category'') (Inr (JStr ''N/A''))) (to_string rt)) (\<lambda>category.
     bindE (get_prop rt data ''closed'') (\<lambda>closed.
     bindE (bindE (or_else (get_prop rt data ''end_date_iso'') (Inr (JStr ''N/A''))) (to_string rt)) (\<lambda>end_date.
     bindE (bindE (or_else (get_prop rt data ''volume'') (Inr (JNum (Fin 0))))
              (to_locale_string rt ''(data.volume || 0).toLocaleString'')) (\<lambda>volume.
     bindE (bindE (or_else (get_prop rt data ''liquidity'') (Inr (JNum (Fin 0))))
              (to_locale_string rt ''(data.liquidity || 0).toLocaleString'')) (\<lambda>liquidity.
     bindE (outcome_prices_text rt data) (\<lambda>prices.
     bindE (bindE (or_else (get_prop rt data ''description'') (Inr (JStr ''No description available'')))
              (to_string rt)) (\<lambda>description.
     Inr (''Title: '' @ title @ ''\<newline>Category: '' @ category
          @ ''\<newline>Status: '' @ (if truthy closed then ''Closed'' else ''Open'')
          @ ''\<newline>End Date: '' @ end_date
          @ ''\<newline>Volume: $'' @ volume
          @ ''\<newline>Liquidity: $'' @ liquidity
          @ ''\<newline>Outcome Prices: '' @ prices
          @ ''\<newline>Description: '' @ description)))))))))"

definition get_market_info :: "runtime \<Rightarrow> upstream \<Rightarrow> jsval \<Rightarrow> js_error + string" where
  "get_market_info rt fetch args =
     bindE (bindE (get_prop rt args ''market_id'') (to_string rt)) (\<lambda>market_id.
     bindE (callPolymarketAPI rt fetch (''/markets/'' @ market_id) None) (\<lambda>data.
       if \<not> truthy data then Inr not_found_text else market_report rt data))"

subsection \<open>list-markets\<close>

text \<open>The object \<^verbatim>\<open>params\<close>, as the list of its properties in insertion order.\<close>

definition list_markets_params :: "runtime \<Rightarrow> jsval \<Rightarrow> js_error + (string \<times> jsval) list" where
  "list_markets_params rt args =
     bindE (get_prop rt args ''closed'') (\<lambda>closed.
     bindE (get_prop rt args ''limit'') (\<lambda>limit.
     bindE (get_prop rt args ''offset'') (\<lambda>offset.
     Inr ((if closed \<noteq> JUndefined then [(''closed'', closed)] else [])
          @ (if truthy limit then [(''limit'', limit)] else [])
          @ (if truthy offset then [(''offset'', offset)] else [])))))"

text \<open>One entry of the numbered list; \<open>index\<close> counts from 0.\<close>

definition market_entry :: "runtime \<Rightarrow> nat \<Rightarrow> jsval \<Rightarrow> js_error + string" where
  "market_entry rt index market =
     bindE (bindE (or_else (or_else (get_prop rt market ''question'') (get_prop rt market ''title''))
                     (Inr (JStr ''Untitled Market''))) (to_string rt)) (\<lambda>title.
     bindE (bindE (or_else (or_else (get_prop rt market ''condition_id'') (get_prop rt market ''id''))
                     (Inr (JStr ''N/A''))) (to_string rt)) (\<lambda>ident.
     bindE (get_prop rt market ''closed'') (\<lambda>closed.
     bindE (bindE (or_else (get_prop rt market ''volume'') (Inr (JNum (Fin 0))))
              (to_locale_string rt ''(market.volume || 0).toLocaleString'')) (\<lambda>volume.
     bindE (bindE (or_else (get_prop rt market ''end_date_iso'') (Inr (JStr ''N/A''))) (to_string rt)) (\<lambda>end_date.
     Inr (show_nat (index + 1) @ ''. '' @ title
          @ ''\<newline>   ID: '' @ ident
          @ ''\<newline>   Status: '' @ (if truthy closed then ''Closed'' else ''Open'')
          @ ''\<newline>   Volume: $'' @ volume
          @ ''\<newline>   End Date: '' @ end_date
          @ ''\<newline>---\<newline>''))))))"

text \<open>The \<^verbatim>\<open>forEach\<close> that appends one entry per market to \<^verbatim>\<open>result\<close>.\<close>

fun market_entries :: "runtime \<Rightarrow> nat \<Rightarrow> jsval list \<Rightarrow> string \<Rightarrow> js_error + string" where
  "market_entries rt index [] result = Inr result"
| "market_entries rt index (market # rest) result =
     bindE (market_entry rt index market) (\<lambda>entry.
       market_entries rt (Suc index) rest (result @ entry))"

text \<open>What the tool does with the upstream's answer.\<close>

definition render_markets :: "runtime \<Rightarrow> jsval \<Rightarrow> js_error + string" where
  "render_markets rt data =
     (if \<not> truthy data then Inr no_markets_text
      else bindE (get_prop rt data ''length'') (\<lambda>len.
        if len = JNum (Fin 0) then Inr no_markets_text
        else bindE (to_string rt len) (\<lambda>n.
          case data of
            JArr markets \<Rightarrow>
              market_entries rt 0 markets (''Found '' @ n @ '' markets:\<newline>\<newline>'')
          | _ \<Rightarrow> Inl (TypeError rt (NotAFunction ''data.forEach'')))))"

definition list_markets :: "runtime \<Rightarrow> upstream \<Rightarrow> jsval \<Rightarrow> js_error + string" where
  "list_markets rt fetch args =
     bindE (list_markets_params rt args) (\<lambda>params.
     bindE (callPolymarketAPI rt fetch ''/markets'' (Some params)) (render_markets rt))"

text \<open>The request the tool sends upstream: its parameters, through \<open>build_url\<close>.\<close>

definition list_markets_url :: "runtime \<Rightarrow> jsval \<Rightarrow> js_error + url_request" where
  "list_markets_url rt args =
     bindE (list_markets_params rt args) (\<lambda>params. build_url rt ''/markets'' (Some params))"

subsection \<open>get-market-prices\<close>

text \<open>
  The line \<^verbatim>\<open>`${label}: $${price.toFixed(4)} (${(price * 100).toFixed(1)}%)\n`\<close>, the
  label already converted. Only a Number has \<^verbatim>\<open>toFixed\<close>.
\<close>

definition price_line :: "runtime \<Rightarrow> string \<Rightarrow> jsval \<Rightarrow> js_error + string" where
  "price_line rt label price =
     (case price of
        JNum p \<Rightarrow>
          Inr (label @ '': $'' @ to_fixed 4 p @ '' ('' @ to_fixed 1 (num_mult p (Fin 100)) @ ''%)\<newline>'')
      | _ \<Rightarrow> Inl (TypeError rt (NotAFunction ''price.toFixed'')))"

definition outcome_line :: "runtime \<Rightarrow> jsval \<Rightarrow> jsval \<Rightarrow> js_error + string" where
  "outcome_line rt data outcome =
     bindE (get_prop rt data ''outcomeprices'') (\<lambda>prices.
     bindE (to_string rt outcome) (\<lambda>key.
     bindE (get_computed rt prices key) (\<lambda>v.
     bindE (to_string rt outcome) (\<lambda>label.
     price_line rt label (js_or v (JNum (Fin 0)))))))"

definition token_line :: "runtime \<Rightarrow> jsval \<Rightarrow> js_error + string" where
  "token_line rt token =
     bindE (get_prop rt token ''price'') (\<lambda>v.
     bindE (bindE (get_prop rt token ''outcome'') (to_string rt)) (\<lambda>label.
     price_line rt label (js_or v (JNum (Fin 0)))))"

text \<open>
  A \<^verbatim>\<open>forEach\<close> that appends one line per element to \<^verbatim>\<open>result\<close>. In \<open>market_prices\<close>
  the second branch is taken when \<^verbatim>\<open>data.tokens && Array.isArray(data.tokens)\<close> holds:
  an array is always truthy.
\<close>

fun append_lines :: "('a \<Rightarrow> js_error + string) \<Rightarrow> 'a list \<Rightarrow> string \<Rightarrow> js_error + string" where
  "append_lines f [] result = Inr result"
| "append_lines f (x # xs) result = bindE (f x) (\<lambda>l. append_lines f xs (result @ l))"

definition market_prices :: "runtime \<Rightarrow> jsval \<Rightarrow> js_error + string" where
  "market_prices rt data =
     bindE (bindE (or_else (or_else (get_prop rt data ''question'') (get_prop rt data ''title''))
                     (Inr (JStr ''Unknown Market''))) (to_string rt)) (\<lambda>title.
     bindE (and_then (get_prop rt data ''outcomes'') (get_prop rt data ''outcomeprices'')) (\<lambda>both.
       if truthy both
       then bindE (get_prop rt data ''outcomes'') (\<lambda>outcomes.
              case outcomes of
                JArr os \<Rightarrow>
                  append_lines (outcome_line rt data) os
                    (''Market: '' @ title @ ''\<newline>\<newline>'' @ ''Current Prices:\<newline>'')
              | _ \<Rightarrow> Inl (TypeError rt (NotAFunction ''data.outcomes.forEach'')))
       else bindE (get_prop rt data ''tokens'') (\<lambda>tokens.
              case tokens of
                JArr ts \<Rightarrow>
                  append_lines (token_line rt) ts
                    (''Market: '' @ title @ ''\<newline>\<newline>'' @ ''Current Prices:\<newline>'')
              | _ \<Rightarrow>
                  Inr (''Market: '' @ title @ ''\<newline>\<newline>''
                       @ ''No price data available for this market.''))))"

definition get_market_prices :: "runtime \<Rightarrow> upstream \<Rightarrow> jsval \<Rightarrow> js_error + string" where
  "get_market_prices rt fetch args =
     bindE (bindE (get_prop rt args ''market_id'') (to_string rt)) (\<lambda>market_id.
     bindE (callPolymarketAPI rt fetch (''/markets/'' @ market_id) None) (\<lambda>data.
       if \<not> truthy data then Inr not_found_text else market_prices rt data))"

subsection \<open>executeTool\<close>

text \<open>
  The body of the \<^verbatim>\<open>try\<close> block: the \<^verbatim>\<open>switch\<close> compares \<^verbatim>\<open>name\<close> with \<^verbatim>\<open>===\<close>, and
  the default case throws.
\<close>

definition executeTool_try :: "runtime \<Rightarrow> upstream \<Rightarrow> jsval \<Rightarrow> jsval \<Rightarrow> js_error + string" where
  "executeTool_try rt fetch name args =
     (if name = JStr ''get-market-info'' then get_market_info rt fetch args
      else if name = JStr ''list-markets'' then list_markets rt fetch args
      else if name = JStr ''get-market-prices'' then get_market_prices rt fetch args
      else bindE (to_string rt name) (\<lambda>n. Inl (Error (''Unknown tool: '' @ n))))"

text \<open>The \<^verbatim>\<open>catch\<close> turns whatever was thrown into the returned text.\<close>

definition executeTool :: "runtime \<Rightarrow> upstream \<Rightarrow> jsval \<Rightarrow> jsval \<Rightarrow> string" where
  "executeTool rt fetch name args =
     (case executeTool_try rt fetch name args of
        Inr text \<Rightarrow> text
      | Inl error \<Rightarrow> ''Error: '' @ err_message error)"

section \<open>The handler\<close>

subsection \<open>JSON.stringify\<close>

definition hex_digit :: "nat \<Rightarrow> char" where
  "hex_digit d = ''0123456789abcdef'' ! d"

definition escape_char :: "char \<Rightarrow> string" where
  "escape_char c =
     (let n = (of_char c :: nat)
      in if c = CHR 0x22 then [CHR 0x5C, CHR 0x22]
         else if c = CHR 0x5C then [CHR 0x5C, CHR 0x5C]
         else if n = 8 then [CHR 0x5C, CHR ''b'']
         else if n = 9 then [CHR 0x5C, CHR ''t'']
         else if n = 10 then [CHR 0x5C, CHR ''n'']
         else if n = 12 then [CHR 0x5C, CHR ''f'']
         else if n = 13 then [CHR 0x5C, CHR ''r'']
         else if n < 32
           then [CHR 0x5C, CHR ''u'', CHR ''0'', CHR ''0'', hex_digit (n div 16), hex_digit (n mod 16)]
         else [c])"

definition quote_json :: "string \<Rightarrow> string" where
  "quote_json s = CHR 0x22 # concat (map escape_char s) @ [CHR 0x22]"

text \<open>
  \<open>None\<close> is the result \<^verbatim>\<open>undefined\<close>. A property whose value gives \<^verbatim>\<open>undefined\<close> is
  left out; such an array element is written \<^verbatim>\<open>null\<close>, and so is a number that is not
  finite.
\<close>

fun JSON_stringify :: "jsval \<Rightarrow> string option"
  and stringify_elements :: "jsval list \<Rightarrow> string list"
  and stringify_members :: "(string \<times> jsval) list \<Rightarrow> string list" where
  "JSON_stringify JUndefined = None"
| "JSON_stringify (JBuiltin f) = None"
| "JSON_stringify JNull = Some ''null''"
| "JSON_stringify (JBool b) = Some (if b then ''true'' else ''false'')"
| "JSON_stringify (JNum n) = Some (case n of Fin r \<Rightarrow> num_to_string n | _ \<Rightarrow> ''null'')"
| "JSON_stringify (JStr s) = Some (quote_json s)"
| "JSON_stringify (JArr xs) = Some (''['' @ join '','' (stringify_elements xs) @ '']'')"
| "JSON_stringify (JObj kvs) = Some (''{'' @ join '','' (stringify_members kvs) @ ''}'')"
| "stringify_elements [] = []"
| "stringify_elements (x # xs) =
     (case JSON_stringify x of None \<Rightarrow> ''null'' | Some t \<Rightarrow> t) # stringify_elements xs"
| "stringify_members [] = []"
| "stringify_members ((k, v) # kvs) =
     (case JSON_stringify v of
        None \<Rightarrow> stringify_members kvs
      | Some t \<Rightarrow> (quote_json k @ '':'' @ t) # stringify_members kvs)"

subsection \<open>The event stream\<close>

text \<open>
  The stream of the \<^verbatim>\<open>/sse\<close> branch, as the state its callbacks share: the chunks
  enqueued so far, whether the interval timer is set, whether the stream is closed, and
  whether an \<^verbatim>\<open>abort\<close> listener was registered (\<^verbatim>\<open>req.signal?.addEventListener\<close>
  registers none without a signal). After \<^verbatim>\<open>start\<close> the state changes on events only:
  the timer firing, the signal aborting, the consumer cancelling the stream.
\<close>

record sse_stream =
  frames :: "string list"
  timer_set :: bool
  closed :: bool
  listening :: bool

datatype sse_event = Tick | Abort | Cancel

text \<open>\<^verbatim>\<open>controller.enqueue\<close> throws on a closed stream: \<open>None\<close>.\<close>

definition enqueue :: "string \<Rightarrow> sse_stream \<Rightarrow> sse_stream option" where
  "enqueue chunk s = (if closed s then None else Some (s\<lparr>frames := frames s @ [chunk]\<rparr>))"

definition sendSSEMessage :: "jsval \<Rightarrow> sse_stream \<Rightarrow> sse_stream option" where
  "sendSSEMessage data s =
     enqueue (''data: '' @ (case JSON_stringify data of None \<Rightarrow> ''undefined'' | Some t \<Rightarrow> t)
              @ ''\<newline>\<newline>'') s"

definition established :: jsval where
  "established = JObj [(''jsonrpc'', JStr ''2.0''), (''method'', JStr ''connection.established'')]"

definition keepalive :: string where
  "keepalive = '': keepalive\<newline>\<newline>''"

text \<open>
  \<^verbatim>\<open>start(controller)\<close>, which the stream constructor runs at once. Should the first
  enqueue throw, \<^verbatim>\<open>start\<close> ends there and the stream is errored.
\<close>

definition sse_start :: "bool \<Rightarrow> sse_stream" where
  "sse_start has_signal =
     (case sendSSEMessage established
             \<lparr>frames = [], timer_set = False, closed = False, listening = False\<rparr> of
        None \<Rightarrow> \<lparr>frames = [], timer_set = False, closed = True, listening = False\<rparr>
      | Some s \<Rightarrow> s\<lparr>timer_set := True, listening := has_signal\<rparr>)"

text \<open>
  The callbacks. The timer's callback runs only while the timer is set; a failed
  enqueue clears it. The \<^verbatim>\<open>abort\<close> listener clears the timer and closes the stream
  (\<^verbatim>\<open>close\<close> on a closed stream throws, and the throw is swallowed).
\<close>

fun sse_step :: "sse_stream \<Rightarrow> sse_event \<Rightarrow> sse_stream" where
  "sse_step s Tick =
     (if timer_set s
      then (case enqueue keepalive s of Some s' \<Rightarrow> s' | None \<Rightarrow> s\<lparr>timer_set := False\<rparr>)
      else s)"
| "sse_step s Abort = (if listening s then s\<lparr>timer_set := False, closed := True\<rparr> else s)"
| "sse_step s Cancel = s\<lparr>closed := True\<rparr>"

definition sse_run :: "sse_stream \<Rightarrow> sse_event list \<Rightarrow> sse_stream" where
  "sse_run s es = foldl sse_step s es"

subsection \<open>Requests and responses\<close>

text \<open>
  Of a request the handler reads the method, the path of the URL, the outcome of
  \<^verbatim>\<open>await req.json()\<close> and whether there is a signal. The body of a response is
  nothing, a text, the \<^verbatim>\<open>JSON.stringify\<close> of a value (\<open>JsonBody v\<close>), or the event stream.
\<close>

record http_request =
  req_method :: string
  req_pathname :: string
  req_json :: "js_error + jsval"
  req_signal :: bool

datatype body = NoBody | TextBody string | JsonBody jsval | StreamBody sse_stream

record http_response =
  status :: nat
  headers :: "(string \<times> string) list"
  body :: body

definition tools :: jsval where
  "tools = JArr
     [JObj [(''name'', JStr ''get-market-info''),
            (''description'', JStr ''Get detailed information about a specific prediction market''),
            (''inputSchema'', JObj
               [(''type'', JStr ''object''),
                (''properties'', JObj
                   [(''market_id'', JObj
                       [(''type'', JStr ''string''),
                        (''description'',
                         JStr ''Market ID or slug (e.g., 'will-bitcoin-reach-100k-by-2024')'')])]),
                (''required'', JArr [JStr ''market_id''])])],
      JObj [(''name'', JStr ''list-markets''),
            (''description'', JStr ''List available prediction markets with filtering options''),
            (''inputSchema'', JObj
               [(''type'', JStr ''object''),
                (''properties'', JObj
                   [(''closed'', JObj
                       [(''type'', JStr ''boolean''),
                        (''description'',
                         JStr ''Filter by market status (true for closed, false for open)''),
                        (''default'', JBool False)]),
                    (''limit'', JObj
                       [(''type'', JStr ''integer''),
                        (''description'', JStr ''Number of markets to return''),
                        (''default'', JNum (Fin 10)),
                        (''minimum'', JNum (Fin 1)),
                        (''maximum'', JNum (Fin 100))]),
                    (''offset'', JObj
                       [(''type'', JStr ''integer''),
                        (''description'', JStr ''Number of markets to skip (for pagination)''),
                        (''default'', JNum (Fin 0)),
                        (''minimum'', JNum (Fin 0))])])])],
      JObj [(''name'', JStr ''get-market-prices''),
            (''description'',
             JStr ''Get current prices and trading information for a specific market''),
            (''inputSchema'', JObj
               [(''type'', JStr ''object''),
                (''properties'', JObj
                   [(''market_id'', JObj
                       [(''type'', JStr ''string''),
                        (''description'', JStr ''Market ID or slug'')])]),
                (''required'', JArr [JStr ''market_id''])])]]"

definition cors_headers :: "(string \<times> string) list" where
  "cors_headers =
     [(''Access-Control-Allow-Origin'', ''*''),
      (''Access-Control-Allow-Methods'', ''GET, POST, OPTIONS''),
      (''Access-Control-Allow-Headers'', ''*'')]"

text \<open>\<^verbatim>\<open>String.prototype.endsWith\<close>.\<close>

definition ends_with :: "string \<Rightarrow> string \<Rightarrow> bool" where
  "ends_with s suf = (length suf \<le> length s \<and> drop (length s - length suf) s = suf)"

definition initialize_result :: jsval where
  "initialize_result = JObj
     [(''protocolVersion'', JStr ''0.1.0''),
      (''capabilities'', JObj [(''tools'', JObj []), (''prompts'', JObj [])]),
      (''serverInfo'', JObj [(''name'', JStr ''polymarket-mcp''), (''version'', JStr ''1.0.0'')])]"

subsection \<open>The dispatch of a message\<close>

text \<open>
  The \<^verbatim>\<open>try\<close> block of the \<^verbatim>\<open>/messages\<close> branch after the body is parsed: the value is
  the \<^verbatim>\<open>response\<close> object handed to \<^verbatim>\<open>JSON.stringify\<close>. The \<^verbatim>\<open>switch\<close> compares with
  \<^verbatim>\<open>===\<close>. In the \<^verbatim>\<open>tools/call\<close> case the \<^verbatim>\<open>console.log\<close> converts the tool name to a
  string in its template literal and reads \<^verbatim>\<open>callRequest.arguments\<close>, before the tool
  runs; both can throw.
\<close>

definition rpc_result :: "jsval \<Rightarrow> jsval \<Rightarrow> jsval" where
  "rpc_result ident result =
     JObj [(''jsonrpc'', JStr ''2.0''), (''id'', ident), (''result'', result)]"

definition rpc_error :: "jsval \<Rightarrow> int \<Rightarrow> string \<Rightarrow> jsval" where
  "rpc_error ident code message =
     JObj [(''jsonrpc'', JStr ''2.0''), (''id'', ident),
           (''error'', JObj [(''code'', JNum (Fin (of_int code))), (''message'', JStr message)])]"

definition text_content :: "string \<Rightarrow> jsval" where
  "text_content text = JObj [(''content'', JArr [JObj [(''type'', JStr ''text''), (''text'', JStr text)]])]"

definition dispatch :: "runtime \<Rightarrow> upstream \<Rightarrow> jsval \<Rightarrow> js_error + jsval" where
  "dispatch rt fetch message =
     bindE (get_prop rt message ''id'') (\<lambda>ident.
     bindE (get_prop rt message ''method'') (\<lambda>method.
       if method = JStr ''initialize'' then Inr (rpc_result ident initialize_result)
       else if method = JStr ''tools/list'' then Inr (rpc_result ident (JObj [(''tools'', tools)]))
       else if method = JStr ''tools/call''
         then bindE (get_prop rt message ''params'') (\<lambda>callRequest.
              bindE (get_prop rt callRequest ''name'') (\<lambda>name.
              bindE (to_string rt name) (\<lambda>logged.
              bindE (get_prop rt callRequest ''arguments'') (\<lambda>arguments.
                Inr (rpc_result ident
                       (text_content (executeTool rt fetch name (js_or arguments (JObj [])))))))))
       else if method = JStr ''prompts/list''
         then Inr (rpc_result ident (JObj [(''prompts'', JArr [])]))
       else bindE (to_string rt method) (\<lambda>m.
              Inr (rpc_error ident (- 32601) (''Method not found: '' @ m)))))"

text \<open>The envelope of the \<^verbatim>\<open>catch\<close>: it is written without an \<^verbatim>\<open>id\<close>.\<close>

definition internal_error :: "js_error \<Rightarrow> jsval" where
  "internal_error error =
     JObj [(''jsonrpc'', JStr ''2.0''),
           (''error'', JObj [(''code'', JNum (Fin (- 32603))),
                            (''message'', JStr ''Internal error''),
                            (''data'', JStr (error_toString error))])]"

definition json_response :: "nat \<Rightarrow> jsval \<Rightarrow> http_response" where
  "json_response st v =
     \<lparr>status = st, headers = cors_headers @ [(''Content-Type'', ''application/json'')],
      body = JsonBody v\<rparr>"

definition banner :: string where
  "banner = ''Polymarket MCP Server - Working! Use /sse endpoint for SSE connection.''"

definition handler :: "runtime \<Rightarrow> upstream \<Rightarrow> http_request \<Rightarrow> http_response" where
  "handler rt fetch req =
     (if req_method req = ''OPTIONS''
        then \<lparr>status = 200, headers = cors_headers, body = NoBody\<rparr>
      else if ends_with (req_pathname req) ''/sse''
        then \<lparr>status = 200,
              headers = cors_headers @ [(''Content-Type'', ''text/event-stream''),
                                        (''Cache-Control'', ''no-cache''),
                                        (''Connection'', ''keep-alive'')],
              body = StreamBody (sse_start (req_signal req))\<rparr>
      else if ends_with (req_pathname req) ''/messages'' \<and> req_method req = ''POST''
        then (case bindE (req_json req) (dispatch rt fetch) of
                Inr response \<Rightarrow> json_response 200 response
              | Inl error \<Rightarrow> json_response 500 (internal_error error))
      else \<lparr>status = 200, headers = cors_headers, body = TextBody banner\<rparr>)"

section \<open>A sample host and sample traffic\<close>

text \<open>
  The theorems below hold for every host and every upstream. Where one is evaluated on
  a concrete input, the host is V8 with the locale \<^verbatim>\<open>en-US\<close>: the members of
  \<^verbatim>\<open>Object.prototype\<close>, which every value inherits, V8's wording of the messages, and
  numbers grouped by thousands with at most three fraction digits. The sample is a
  sketch of that host: it prints an inherited member under its property key, knows no
  member of the other prototypes, and rounds the exact value of a double. The
  evaluations below read no inherited member and format no number but 0.
\<close>

definition object_prototype_members :: "string list" where
  "object_prototype_members =
     [''constructor'', ''__defineGetter__'', ''__defineSetter__'', ''hasOwnProperty'',
      ''__lookupGetter__'', ''__lookupSetter__'', ''isPrototypeOf'', ''propertyIsEnumerable'',
      ''toString'', ''valueOf'', ''__proto__'', ''toLocaleString'']"

definition v8_inherited :: "jsval \<Rightarrow> string \<Rightarrow> jsval" where
  "v8_inherited v k = (if k \<in> set object_prototype_members then JBuiltin k else JUndefined)"

definition v8_builtin_text :: "string \<Rightarrow> string" where
  "v8_builtin_text f = ''function '' @ f @ ''() { [native code] }''"

fun v8_fault_message :: "fault \<Rightarrow> string" where
  "v8_fault_message (ReadOfNullish v k) =
     ''Cannot read properties of '' @ (if v = JNull then ''null'' else ''undefined'')
     @ '' (reading '' @ [CHR 0x27] @ k @ [CHR 0x27] @ '')''"
| "v8_fault_message (NotAFunction callee) = callee @ '' is not a function''"
| "v8_fault_message NotPrimitive = ''Cannot convert object to primitive value''"

fun commas :: "string \<Rightarrow> string" where
  "commas (a # b # c # d # rest) = a # b # c # CHR '','' # commas (d # rest)"
| "commas ds = ds"

fun en_US :: "jsnum \<Rightarrow> string" where
  "en_US (Fin r) =
     (let n = \<lfloor>\<bar>r\<bar> * 1000 + 1 / 2\<rfloor>;
          whole = rev (commas (rev (show_int (n div 1000))));
          thousandths = show_int (1000 + n mod 1000);
          fraction = rev (dropWhile (\<lambda>c. c = CHR ''0'') (rev (drop 1 thousandths)))
      in (if r < 0 then ''-'' else [])
         @ whole @ (if fraction = [] then [] else ''.'' @ fraction))"
| "en_US NaN = ''NaN''"
| "en_US PInf = [CHR 0xE2, CHR 0x88, CHR 0x9E]"
| "en_US NInf = [CHR ''-'', CHR 0xE2, CHR 0x88, CHR 0x9E]"

definition v8_en_US :: runtime where
  "v8_en_US = \<lparr>inherited = v8_inherited, builtin_text = v8_builtin_text,
               fault_message = v8_fault_message, locale_number = en_US\<rparr>"

text \<open>Upstreams: one that cannot be reached, one that answers 404, one that serves a payload.\<close>

definition offline :: upstream where
  "offline url = Rejected (JsError ''TypeError'' ''fetch failed'')"


definition serves :: "jsval \<Rightarrow> upstream" where
  "serves data url =
     Response 200 (Inr (case JSON_stringify data of None \<Rightarrow> [] | Some t \<Rightarrow> t)) (Inr data)"

text \<open>
  Payloads: the market of the specification's example, its prices the Numbers that the
  literals \<^verbatim>\<open>0.6\<close> and \<^verbatim>\<open>0.4\<close> denote, and the same market without its prices.
\<close>

definition six_tenths :: jsnum where
  "six_tenths = to_double (6 / 10)"

definition four_tenths :: jsnum where
  "four_tenths = to_double (4 / 10)"

definition yes_no_market :: jsval where
  "yes_no_market =
     JObj [(''question'', JStr ''Q''),
           (''outcomes'', JArr [JStr ''Yes'', JStr ''No'']),
           (''outcomeprices'', JObj [(''Yes'', JNum six_tenths), (''No'', JNum four_tenths)])]"

definition unpriced_market :: jsval where
  "unpriced_market =
     JObj [(''question'', JStr ''Q''), (''outcomes'', JArr [JStr ''Yes'', JStr ''No''])]"

text \<open>Requests.\<close>

definition post_message :: "jsval \<Rightarrow> http_request" where
  "post_message message =
     \<lparr>req_method = ''POST'', req_pathname = ''/api/mcp/messages'',
      req_json = Inr message, req_signal = True\<rparr>"

definition open_sse :: http_request where
  "open_sse =
     \<lparr>req_method = ''GET'', req_pathname = ''/api/mcp/sse'',
      req_json = Inl (JsError ''SyntaxError'' ''Unexpected end of JSON input''),
      req_signal = True\<rparr>"

text \<open>A request that reaches the \<^verbatim>\<open>/messages\<close> branch with a body that parses.\<close>

definition posts :: "http_request \<Rightarrow> jsval \<Rightarrow> bool" where
  "posts req message =
     (req_method req = ''POST'' \<and> ends_with (req_pathname req) ''/messages''
      \<and> req_json req = Inr message)"

text \<open>The \<^verbatim>\<open>id\<close> of the object a response serialises, \<^verbatim>\<open>undefined\<close> when there is none.\<close>

definition response_id :: "http_response \<Rightarrow> jsval" where
  "response_id r = (case body r of JsonBody v \<Rightarrow> field v ''id'' | _ \<Rightarrow> JUndefined)"


definition call_tool :: "int \<Rightarrow> string \<Rightarrow> jsval \<Rightarrow> jsval" where
  "call_tool n name args =
     JObj [(''jsonrpc'', JStr ''2.0''), (''id'', JNum (Fin (of_int n))),
           (''method'', JStr ''tools/call''),
           (''params'', JObj [(''name'', JStr name), (''arguments'', args)])]"

definition rpc_message :: "int \<Rightarrow> string \<Rightarrow> jsval" where
  "rpc_message n method =
     JObj [(''jsonrpc'', JStr ''2.0''), (''id'', JNum (Fin (of_int n))), (''method'', JStr method)]"

section \<open>Properties\<close>

subsection \<open>Conversions and reads\<close>

lemma get_prop_present: "\<not> nullish v \<Longrightarrow> get_prop rt v k = Inr (field v k)"
  by (simp add: get_prop_def)

lemma field_of_nullish: "nullish v \<Longrightarrow> field v k = JUndefined"
  by (cases v) (simp_all add: field_def)

lemma truthy_not_nullish: "truthy v \<Longrightarrow> \<not> nullish v"
  by (cases v) simp_all

lemma nullish_cases: "nullish v \<longleftrightarrow> v = JUndefined \<or> v = JNull"
  by (cases v) simp_all

lemma bindE_Inr_iff: "bindE m f = Inr y \<longleftrightarrow> (\<exists>x. m = Inr x \<and> f x = Inr y)"
  by (cases m) simp_all


lemma or_else_values: "or_else (Inr x) (Inr y) = Inr (js_or x y)"
  by (simp add: or_else_def js_or_def)

text \<open>
  Below \<open>10 ^ 21\<close>, \<^verbatim>\<open>toFixed(f)\<close> writes exactly \<open>f\<close> digits after the point.
\<close>

lemma fixed_mag_places:
  assumes "x < 10 ^ 21" and "0 < f"
  shows "\<exists>whole fraction. fixed_mag f x = whole @ ''.'' @ fraction
            \<and> whole \<noteq> [] \<and> length fraction = f"
proof -
  define m where "m = show_int \<lfloor>x * 10 ^ f + 1 / 2\<rfloor>"
  define m' where "m' = replicate (f + 1 - length m) CHR ''0'' @ m"
  have len: "f + 1 \<le> length m'"
    by (simp add: m'_def)
  have eq: "fixed_mag f x = take (length m' - f) m' @ ''.'' @ drop (length m' - f) m'"
    using assms by (simp add: fixed_mag_def Let_def m_def m'_def)
  have "take (length m' - f) m' \<noteq> []"
    using len by auto
  moreover have "length (drop (length m' - f) m') = f"
    using len by simp
  ultimately show ?thesis
    using eq by blast
qed

lemma to_fixed_places:
  assumes "\<bar>x\<bar> < 10 ^ 21" and "0 < f"
  shows "\<exists>whole fraction. to_fixed f (Fin x) = whole @ ''.'' @ fraction \<and> length fraction = f"
proof (cases "x < 0")
  case True
  then have "- x < 10 ^ 21"
    using assms(1) by simp
  from fixed_mag_places [OF this assms(2)] obtain w fr
    where "fixed_mag f (- x) = w @ ''.'' @ fr" "length fr = f"
    by blast
  then have "to_fixed f (Fin x) = (''-'' @ w) @ ''.'' @ fr \<and> length fr = f"
    using True by simp
  then show ?thesis
    by blast
next
  case False
  then have "x < 10 ^ 21"
    using assms(1) by simp
  from fixed_mag_places [OF this assms(2)] obtain w fr
    where "fixed_mag f x = w @ ''.'' @ fr" "length fr = f"
    by blast
  then show ?thesis
    using False by auto
qed

subsection \<open>The messages endpoint\<close>

lemma messages_is_not_sse: "ends_with p ''/messages'' \<Longrightarrow> \<not> ends_with p ''/sse''"
proof
  assume m: "ends_with p ''/messages''" and e: "ends_with p ''/sse''"
  from m have len: "9 \<le> length p" and tail: "drop (length p - 9) p = ''/messages''"
    by (simp_all add: ends_with_def eval_nat_numeral)
  have "drop (length p - 4) p = drop 5 (drop (length p - 9) p)"
    using len by simp
  also have "\<dots> = ''ages''"
    by (simp add: tail)
  finally show False
    using e by (simp add: ends_with_def eval_nat_numeral)
qed

lemma handler_posts:
  "posts req message \<Longrightarrow>
   handler rt fetch req =
     (case dispatch rt fetch message of
        Inr response \<Rightarrow> json_response 200 response
      | Inl error \<Rightarrow> json_response 500 (internal_error error))"
  by (simp add: posts_def handler_def messages_is_not_sse)

lemma json_response_parts:
  "status (json_response st v) = st" "body (json_response st v) = JsonBody v"
  by (simp_all add: json_response_def)

lemma field_rpc_result_id: "field (rpc_result ident r) ''id'' = ident"
  by (simp add: rpc_result_def field_def)

lemma field_rpc_error_id: "field (rpc_error ident c m) ''id'' = ident"
  by (simp add: rpc_error_def field_def)

lemma dispatch_echoes_id:
  assumes "dispatch rt fetch message = Inr obj"
  shows "field obj ''id'' = field message ''id''"
proof (cases "nullish message")
  case True
  then show ?thesis
    using assms by (simp add: dispatch_def get_prop_def)
next
  case False
  then show ?thesis
    using assms
    by (auto simp: dispatch_def get_prop_present bindE_Inr_iff field_rpc_result_id
        field_rpc_error_id split: if_splits)
qed

text \<open>
  The two ways out of the \<^verbatim>\<open>try\<close> block. Where the dispatch returns, the answer has
  the status 200 and the object handed to \<^verbatim>\<open>JSON.stringify\<close> has the \<^verbatim>\<open>id\<close> read from
  the message. Where it throws, the answer has the status 500 and the object is the
  literal of the \<^verbatim>\<open>catch\<close>, whose only properties are \<^verbatim>\<open>jsonrpc\<close> and \<^verbatim>\<open>error\<close>.
\<close>

lemma returned_dispatch_echoes_id:
  assumes "posts req message" and "dispatch rt fetch message = Inr obj"
  shows "status (handler rt fetch req) = 200
         \<and> body (handler rt fetch req) = JsonBody obj
         \<and> field obj ''id'' = field message ''id''"
  using assms dispatch_echoes_id [OF assms(2)]
  by (simp add: handler_posts [of req message] json_response_parts)

lemma thrown_dispatch_drops_id:
  assumes "posts req message" and "dispatch rt fetch message = Inl error"
  shows "status (handler rt fetch req) = 500
         \<and> body (handler rt fetch req) =
             JsonBody (JObj [(''jsonrpc'', JStr ''2.0''),
                             (''error'', JObj [(''code'', JNum (Fin (- 32603))),
                                              (''message'', JStr ''Internal error''),
                                              (''data'', JStr (error_toString error))])])"
  using assms
  by (simp add: handler_posts [of req message] json_response_parts internal_error_def)

text \<open>
  Claim C1 promises the \<^verbatim>\<open>id\<close> of the request in every response, the envelope of
  status 500 included. The request below is a \<^verbatim>\<open>tools/call\<close> with the \<^verbatim>\<open>id\<close> 1 and no
  \<^verbatim>\<open>params\<close>. The handler reads the \<^verbatim>\<open>id\<close>, then the dispatch throws, and the answer is
  the envelope of the \<^verbatim>\<open>catch\<close>: status 500, an object with \<^verbatim>\<open>jsonrpc\<close> and \<^verbatim>\<open>error\<close>
  and without any \<^verbatim>\<open>id\<close>.
\<close>

theorem C1_internal_error_has_no_id:
  "field (JObj [(''jsonrpc'', JStr ''2.0''), (''id'', JNum (Fin 1)),
                (''method'', JStr ''tools/call'')]) ''id'' = JNum (Fin 1)
   \<and> status (handler v8_en_US offline
        \<lparr>req_method = ''POST'', req_pathname = ''/api/mcp/messages'',
         req_json = Inr (JObj [(''jsonrpc'', JStr ''2.0''), (''id'', JNum (Fin 1)),
                               (''method'', JStr ''tools/call'')]),
         req_signal = True\<rparr>) = 500
   \<and> body (handler v8_en_US offline
        \<lparr>req_method = ''POST'', req_pathname = ''/api/mcp/messages'',
         req_json = Inr (JObj [(''jsonrpc'', JStr ''2.0''), (''id'', JNum (Fin 1)),
                               (''method'', JStr ''tools/call'')]),
         req_signal = True\<rparr>) =
       JsonBody (JObj [(''jsonrpc'', JStr ''2.0''),
                       (''error'', JObj [(''code'', JNum (Fin (- 32603))),
                                        (''message'', JStr ''Internal error''),
                                        (''data'', JStr (''TypeError: Cannot read properties of undefined (reading ''
                                                        @ [CHR 0x27] @ ''name'' @ [CHR 0x27] @ '')''))])])
   \<and> response_id (handler v8_en_US offline
        \<lparr>req_method = ''POST'', req_pathname = ''/api/mcp/messages'',
         req_json = Inr (JObj [(''jsonrpc'', JStr ''2.0''), (''id'', JNum (Fin 1)),
                               (''method'', JStr ''tools/call'')]),
         req_signal = True\<rparr>) = JUndefined"
  by code_simp

text \<open>
  Claim C5. A POST to \<^verbatim>\<open>/messages\<close> whose body is not \<^verbatim>\<open>null\<close> and whose \<^verbatim>\<open>method\<close> is
  none of \<^verbatim>\<open>initialize\<close>, \<^verbatim>\<open>tools/list\<close>, \<^verbatim>\<open>tools/call\<close>, \<^verbatim>\<open>prompts/list\<close> is answered
  with the status 200 and the object of exactly three properties \<^verbatim>\<open>jsonrpc\<close>, \<^verbatim>\<open>id\<close>
  and \<^verbatim>\<open>error\<close>, the error having the code -32601 and the message
  \<^verbatim>\<open>Method not found: \<close> followed by the method as the template literal prints it (a
  method that is a string prints as itself). There is no \<^verbatim>\<open>result\<close>.
\<close>

theorem C5_unknown_method:
  assumes "posts req message"
    and "\<not> nullish message"
    and "field message ''method'' \<notin>
           {JStr ''initialize'', JStr ''tools/list'', JStr ''tools/call'', JStr ''prompts/list''}"
    and "to_string rt (field message ''method'') = Inr m"
  shows "status (handler rt fetch req) = 200
         \<and> body (handler rt fetch req) =
             JsonBody (JObj [(''jsonrpc'', JStr ''2.0''),
                             (''id'', field message ''id''),
                             (''error'', JObj [(''code'', JNum (Fin (- 32601))),
                                              (''message'', JStr (''Method not found: '' @ m))])])"
proof -
  have "dispatch rt fetch message =
          Inr (rpc_error (field message ''id'') (- 32601) (''Method not found: '' @ m))"
    using assms(2,3,4) by (simp add: dispatch_def get_prop_present)
  then show ?thesis
    using assms(1)
    by (simp add: handler_posts [of req message] json_response_parts rpc_error_def)
qed

theorem C5_unknown_method_witness:
  "posts (post_message (rpc_message 2 ''foo/bar'')) (rpc_message 2 ''foo/bar'')
   \<and> \<not> nullish (rpc_message 2 ''foo/bar'')
   \<and> field (rpc_message 2 ''foo/bar'') ''method'' \<notin>
        {JStr ''initialize'', JStr ''tools/list'', JStr ''tools/call'', JStr ''prompts/list''}
   \<and> to_string v8_en_US (field (rpc_message 2 ''foo/bar'') ''method'') = Inr ''foo/bar''
   \<and> status (handler v8_en_US offline (post_message (rpc_message 2 ''foo/bar''))) = 200
   \<and> body (handler v8_en_US offline (post_message (rpc_message 2 ''foo/bar''))) =
       JsonBody (JObj [(''jsonrpc'', JStr ''2.0''),
                       (''id'', JNum (Fin 2)),
                       (''error'', JObj [(''code'', JNum (Fin (- 32601))),
                                        (''message'', JStr ''Method not found: foo/bar'')])])"
proof -
  have h1: "posts (post_message (rpc_message 2 ''foo/bar'')) (rpc_message 2 ''foo/bar'')"
    by (simp add: posts_def post_message_def ends_with_def)
  have h2: "\<not> nullish (rpc_message 2 ''foo/bar'')"
    by (simp add: rpc_message_def)
  have f: "field (rpc_message 2 ''foo/bar'') ''method'' = JStr ''foo/bar''"
    and i: "field (rpc_message 2 ''foo/bar'') ''id'' = JNum (Fin 2)"
    by (simp_all add: rpc_message_def field_def)
  have h3: "field (rpc_message 2 ''foo/bar'') ''method'' \<notin>
        {JStr ''initialize'', JStr ''tools/list'', JStr ''tools/call'', JStr ''prompts/list''}"
    by (simp add: f)
  have h4: "to_string v8_en_US (field (rpc_message 2 ''foo/bar'') ''method'') = Inr ''foo/bar''"
    by (simp add: f)
  from C5_unknown_method [OF h1 h2 h3 h4, of offline] h1 h2 h3 h4 show ?thesis
    by (simp add: i)
qed

text \<open>
  Claim C9. A POST to \<^verbatim>\<open>/messages\<close> whose body has the method \<^verbatim>\<open>tools/call\<close> and no
  \<^verbatim>\<open>params\<close> property: reading \<^verbatim>\<open>callRequest.name\<close> from \<^verbatim>\<open>undefined\<close> throws, and the
  answer is the envelope of the \<^verbatim>\<open>catch\<close>: the status 500 and the object of the two
  properties \<^verbatim>\<open>jsonrpc\<close> and \<^verbatim>\<open>error\<close>, the error having the code -32603, the message
  \<^verbatim>\<open>Internal error\<close> and the thrown \<^verbatim>\<open>TypeError\<close> as its data. There is no \<^verbatim>\<open>result\<close>
  in it: the tool never ran.
\<close>

theorem C9_tools_call_without_params:
  assumes "posts req message"
    and "field message ''method'' = JStr ''tools/call''"
    and "own_prop message ''params'' = None"
  shows "status (handler rt fetch req) = 500
         \<and> body (handler rt fetch req) =
             JsonBody (JObj [(''jsonrpc'', JStr ''2.0''),
                             (''error'', JObj [(''code'', JNum (Fin (- 32603))),
                                              (''message'', JStr ''Internal error''),
                                              (''data'', JStr (error_toString
                                                  (TypeError rt (ReadOfNullish JUndefined ''name''))))])])"
proof -
  have present: "\<not> nullish message"
    using assms(2) field_of_nullish by fastforce
  have "field message ''params'' = JUndefined"
    using assms(3) by (simp add: field_def)
  then have "dispatch rt fetch message = Inl (TypeError rt (ReadOfNullish JUndefined ''name''))"
    using assms(2) present by (simp add: dispatch_def get_prop_present) (simp add: get_prop_def)
  then show ?thesis
    using assms(1) by (rule thrown_dispatch_drops_id [rotated])
qed

theorem C9_tools_call_without_params_witness:
  "posts (post_message (rpc_message 3 ''tools/call'')) (rpc_message 3 ''tools/call'')
   \<and> field (rpc_message 3 ''tools/call'') ''method'' = JStr ''tools/call''
   \<and> own_prop (rpc_message 3 ''tools/call'') ''params'' = None
   \<and> status (handler v8_en_US offline (post_message (rpc_message 3 ''tools/call''))) = 500
   \<and> body (handler v8_en_US offline (post_message (rpc_message 3 ''tools/call''))) =
       JsonBody (JObj [(''jsonrpc'', JStr ''2.0''),
                       (''error'', JObj [(''code'', JNum (Fin (- 32603))),
                                        (''message'', JStr ''Internal error''),
                                        (''data'', JStr (''TypeError: Cannot read properties of undefined (reading ''
                                                        @ [CHR 0x27] @ ''name'' @ [CHR 0x27] @ '')''))])])"
proof -
  have h1: "posts (post_message (rpc_message 3 ''tools/call'')) (rpc_message 3 ''tools/call'')"
    by (simp add: posts_def post_message_def ends_with_def)
  have h2: "field (rpc_message 3 ''tools/call'') ''method'' = JStr ''tools/call''"
    by (simp add: rpc_message_def field_def)
  have h3: "own_prop (rpc_message 3 ''tools/call'') ''params'' = None"
    by (simp add: rpc_message_def)
  from C9_tools_call_without_params [OF h1 h2 h3, of v8_en_US offline] h1 h2 h3 show ?thesis
    by (simp add: TypeError_def v8_en_US_def error_toString_def)
qed

subsection \<open>Failures inside a tool\<close>

lemma unknown_tool_text:
  assumes "name \<notin> {JStr ''get-market-info'', JStr ''list-markets'', JStr ''get-market-prices''}"
    and "to_string rt name = Inr n"
  shows "executeTool rt fetch name args = ''Error: Unknown tool: '' @ n"
  using assms by (simp add: executeTool_def executeTool_try_def Error_def)

text \<open>
  A \<^verbatim>\<open>tools/call\<close> whose \<^verbatim>\<open>params\<close> can be read and whose tool name can be printed is
  answered with the status 200 and the object of the three properties \<^verbatim>\<open>jsonrpc\<close>,
  \<^verbatim>\<open>id\<close> and \<^verbatim>\<open>result\<close>, the result holding the one text block that \<^verbatim>\<open>executeTool\<close>
  returned.
\<close>

lemma tools_call_answer:
  assumes "posts req message"
    and "field message ''method'' = JStr ''tools/call''"
    and "\<not> nullish (field message ''params'')"
    and "to_string rt (field (field message ''params'') ''name'') = Inr n"
  shows "status (handler rt fetch req) = 200
         \<and> body (handler rt fetch req) =
             JsonBody (JObj [(''jsonrpc'', JStr ''2.0''),
                             (''id'', field message ''id''),
                             (''result'', JObj [(''content'', JArr
                                [JObj [(''type'', JStr ''text''),
                                       (''text'', JStr (executeTool rt fetch
                                          (field (field message ''params'') ''name'')
                                          (js_or (field (field message ''params'') ''arguments'')
                                             (JObj []))))]])])])"
proof -
  have present: "\<not> nullish message"
    using assms(2) field_of_nullish by fastforce
  have "dispatch rt fetch message =
          Inr (rpc_result (field message ''id'')
                 (text_content (executeTool rt fetch (field (field message ''params'') ''name'')
                    (js_or (field (field message ''params'') ''arguments'') (JObj [])))))"
    using assms(2,3,4) present by (simp add: dispatch_def get_prop_present)
  then show ?thesis
    using assms(1)
    by (simp add: handler_posts [of req message] json_response_parts rpc_result_def
        text_content_def)
qed

text \<open>
  Claim C10. For a tool name that is none of the three tools, \<^verbatim>\<open>executeTool\<close> returns
  the text \<^verbatim>\<open>Error: Unknown tool: \<close> followed by the name: the error thrown by the
  default case is caught by \<^verbatim>\<open>executeTool\<close> itself. A \<^verbatim>\<open>tools/call\<close> with such a name
  is therefore answered with the status 200 and the object of \<^verbatim>\<open>jsonrpc\<close>, \<^verbatim>\<open>id\<close> and
  a \<^verbatim>\<open>result\<close> whose one content block is of type \<^verbatim>\<open>text\<close> and holds that text; there
  is no \<^verbatim>\<open>error\<close> in it.
\<close>

theorem C10_unknown_tool:
  assumes "name \<notin> {JStr ''get-market-info'', JStr ''list-markets'', JStr ''get-market-prices''}"
    and "to_string rt name = Inr n"
  shows "executeTool rt fetch name args = ''Error: Unknown tool: '' @ n
         \<and> (\<forall>req message.
               posts req message \<and> field message ''method'' = JStr ''tools/call''
               \<and> \<not> nullish (field message ''params'')
               \<and> field (field message ''params'') ''name'' = name
               \<longrightarrow> status (handler rt fetch req) = 200
                   \<and> body (handler rt fetch req) =
                       JsonBody (JObj [(''jsonrpc'', JStr ''2.0''),
                                       (''id'', field message ''id''),
                                       (''result'', JObj [(''content'', JArr
                                          [JObj [(''type'', JStr ''text''),
                                                 (''text'', JStr (''Error: Unknown tool: '' @ n))]])])]))"
proof (intro conjI allI impI)
  show "executeTool rt fetch name args = ''Error: Unknown tool: '' @ n"
    using assms by (rule unknown_tool_text)
next
  fix req message
  assume h: "posts req message \<and> field message ''method'' = JStr ''tools/call''
             \<and> \<not> nullish (field message ''params'')
             \<and> field (field message ''params'') ''name'' = name"
  then have "to_string rt (field (field message ''params'') ''name'') = Inr n"
    using assms(2) by simp
  from tools_call_answer [OF _ _ _ this, of req fetch] h
  have answer: "status (handler rt fetch req) = 200
         \<and> body (handler rt fetch req) =
             JsonBody (JObj [(''jsonrpc'', JStr ''2.0''),
                             (''id'', field message ''id''),
                             (''result'', JObj [(''content'', JArr
                                [JObj [(''type'', JStr ''text''),
                                       (''text'', JStr (''Error: Unknown tool: '' @ n))]])])])"
    using assms by (simp add: unknown_tool_text)
  then show "status (handler rt fetch req) = 200"
    and "body (handler rt fetch req) =
           JsonBody (JObj [(''jsonrpc'', JStr ''2.0''),
                           (''id'', field message ''id''),
                           (''result'', JObj [(''content'', JArr
                              [JObj [(''type'', JStr ''text''),
                                     (''text'', JStr (''Error: Unknown tool: '' @ n))]])])])"
    by simp_all
qed

theorem C10_unknown_tool_witness:
  "JStr ''nope'' \<notin> {JStr ''get-market-info'', JStr ''list-markets'', JStr ''get-market-prices''}
   \<and> to_string v8_en_US (JStr ''nope'') = Inr ''nope''
   \<and> executeTool v8_en_US offline (JStr ''nope'') (JObj []) = ''Error: Unknown tool: nope''
   \<and> posts (post_message (call_tool 5 ''nope'' (JObj []))) (call_tool 5 ''nope'' (JObj []))
   \<and> field (call_tool 5 ''nope'' (JObj [])) ''method'' = JStr ''tools/call''
   \<and> \<not> nullish (field (call_tool 5 ''nope'' (JObj [])) ''params'')
   \<and> field (field (call_tool 5 ''nope'' (JObj [])) ''params'') ''name'' = JStr ''nope''
   \<and> status (handler v8_en_US offline (post_message (call_tool 5 ''nope'' (JObj [])))) = 200
   \<and> body (handler v8_en_US offline (post_message (call_tool 5 ''nope'' (JObj [])))) =
       JsonBody (JObj [(''jsonrpc'', JStr ''2.0''),
                       (''id'', JNum (Fin 5)),
                       (''result'', JObj [(''content'', JArr
                          [JObj [(''type'', JStr ''text''),
                                 (''text'', JStr ''Error: Unknown tool: nope'')]])])])"
proof -
  have h1: "JStr ''nope'' \<notin> {JStr ''get-market-info'', JStr ''list-markets'', JStr ''get-market-prices''}"
    by simp
  have h2: "to_string v8_en_US (JStr ''nope'') = Inr ''nope''"
    by simp
  have p: "posts (post_message (call_tool 5 ''nope'' (JObj []))) (call_tool 5 ''nope'' (JObj []))"
    by (simp add: posts_def post_message_def ends_with_def)
  have f: "field (call_tool 5 ''nope'' (JObj [])) ''method'' = JStr ''tools/call''"
    "field (call_tool 5 ''nope'' (JObj [])) ''params''
       = JObj [(''name'', JStr ''nope''), (''arguments'', JObj [])]"
    "field (call_tool 5 ''nope'' (JObj [])) ''id'' = JNum (Fin 5)"
    by (simp_all add: call_tool_def field_def)
  have g: "field (JObj [(''name'', JStr ''nope''), (''arguments'', JObj [])]) ''name'' = JStr ''nope''"
    by (simp add: field_def)
  note c = C10_unknown_tool [OF h1 h2, of offline "JObj []"]
  have a: "executeTool v8_en_US offline (JStr ''nope'') (JObj []) = ''Error: Unknown tool: nope''"
    using c by simp
  have b: "status (handler v8_en_US offline (post_message (call_tool 5 ''nope'' (JObj [])))) = 200
     \<and> body (handler v8_en_US offline (post_message (call_tool 5 ''nope'' (JObj [])))) =
       JsonBody (JObj [(''jsonrpc'', JStr ''2.0''),
                       (''id'', JNum (Fin 5)),
                       (''result'', JObj [(''content'', JArr
                          [JObj [(''type'', JStr ''text''),
                                 (''text'', JStr ''Error: Unknown tool: nope'')]])])])"
    using c [THEN conjunct2, rule_format,
        of "post_message (call_tool 5 ''nope'' (JObj []))" "call_tool 5 ''nope'' (JObj [])"] p f g
    by simp
  from a b p f g h1 h2 show ?thesis
    by simp
qed






lemma call_without_params:
  "callPolymarketAPI rt fetch endpoint None =
     fetch_json fetch \<lparr>url_text = baseUrl @ endpoint, search = []\<rparr>"
  by (simp add: callPolymarketAPI_def build_url_def)



subsection \<open>list-markets\<close>

lemma list_markets_params_present:
  "\<not> nullish args \<Longrightarrow>
   list_markets_params rt args =
     Inr ((if field args ''closed'' \<noteq> JUndefined then [(''closed'', field args ''closed'')] else [])
          @ (if truthy (field args ''limit'') then [(''limit'', field args ''limit'')] else [])
          @ (if truthy (field args ''offset'') then [(''offset'', field args ''offset'')] else []))"
  by (simp add: list_markets_params_def get_prop_present)

text \<open>
  Claim C3, as amended. \<^verbatim>\<open>list-markets\<close> forwards \<^verbatim>\<open>closed\<close> whenever it is neither
  \<^verbatim>\<open>undefined\<close> nor \<^verbatim>\<open>null\<close>, and \<^verbatim>\<open>limit\<close> and \<^verbatim>\<open>offset\<close> exactly when they are truthy,
  in this order and as the strings they convert to. A \<^verbatim>\<open>limit\<close> or \<^verbatim>\<open>offset\<close> of 0 is
  falsy and so is left out of the query.
\<close>

theorem C3_list_markets_query:
  assumes "\<not> nullish args"
    and "to_string rt (field args ''closed'') = Inr closed_text"
    and "to_string rt (field args ''limit'') = Inr limit_text"
    and "to_string rt (field args ''offset'') = Inr offset_text"
  shows "list_markets_url rt args =
           Inr \<lparr>url_text = baseUrl @ ''/markets'',
                search =
                  (if nullish (field args ''closed'') then [] else [(''closed'', closed_text)])
                  @ (if truthy (field args ''limit'') then [(''limit'', limit_text)] else [])
                  @ (if truthy (field args ''offset'') then [(''offset'', offset_text)] else [])\<rparr>"
  using assms
  by (auto simp: list_markets_url_def list_markets_params_present build_url_def
      truthy_not_nullish nullish_cases)

theorem C3_list_markets_query_witness:
  "\<not> nullish (JObj [(''closed'', JBool False), (''limit'', JNum (Fin 0)), (''offset'', JNum (Fin 0))])
   \<and> list_markets_url v8_en_US
        (JObj [(''closed'', JBool False), (''limit'', JNum (Fin 0)), (''offset'', JNum (Fin 0))]) =
       Inr \<lparr>url_text = ''https://gamma-api.polymarket.com/markets'',
            search = [(''closed'', ''false'')]\<rparr>"
proof -
  let ?args = "JObj [(''closed'', JBool False), (''limit'', JNum (Fin 0)), (''offset'', JNum (Fin 0))]"
  have h1: "\<not> nullish ?args"
    by simp
  have f: "field ?args ''closed'' = JBool False" "field ?args ''limit'' = JNum (Fin 0)"
    "field ?args ''offset'' = JNum (Fin 0)"
    by (simp_all add: field_def)
  have h2: "to_string v8_en_US (field ?args ''closed'') = Inr ''false''"
    and h3: "to_string v8_en_US (field ?args ''limit'') = Inr ''0''"
    and h4: "to_string v8_en_US (field ?args ''offset'') = Inr ''0''"
    by (simp_all add: f)
  from C3_list_markets_query [OF h1 h2 h3 h4] h1 show ?thesis
    by (simp add: f baseUrl_def)
qed

text \<open>
  Claim C3 as stated has \<^verbatim>\<open>closed\<close> forwarded whenever it is not \<^verbatim>\<open>undefined\<close>. The
  arguments \<^verbatim>\<open>{"closed": null}\<close> are not \<^verbatim>\<open>undefined\<close> there; the tool puts the \<^verbatim>\<open>null\<close>
  into its parameters, and the client skips it: the query is empty.
\<close>

theorem C3_null_closed_is_dropped:
  "field (JObj [(''closed'', JNull)]) ''closed'' \<noteq> JUndefined
   \<and> list_markets_url v8_en_US (JObj [(''closed'', JNull)]) =
       Inr \<lparr>url_text = ''https://gamma-api.polymarket.com/markets'', search = []\<rparr>"
  by code_simp

lemma list_markets_url_sent:
  assumes "list_markets_url rt args = Inr url"
  shows "list_markets rt fetch args = bindE (fetch_json fetch url) (render_markets rt)"
  using assms
  by (auto simp: list_markets_url_def list_markets_def callPolymarketAPI_def bindE_Inr_iff)

lemma render_nothing:
  "\<not> truthy data \<or> data = JArr [] \<Longrightarrow> render_markets rt data = Inr no_markets_text"
  by (auto simp: render_markets_def get_prop_def field_def)

text \<open>
  Claim C7. When the request of \<^verbatim>\<open>list-markets\<close> is answered \<^verbatim>\<open>ok\<close> with a body that is
  falsy (\<^verbatim>\<open>null\<close>, say) or the empty array, the tool returns exactly
  \<^verbatim>\<open>No markets found with the specified criteria.\<close>
\<close>

theorem C7_no_markets:
  assumes "list_markets_url rt args = Inr url"
    and "fetch url = Response st txt (Inr data)"
    and "response_ok st"
    and "\<not> truthy data \<or> data = JArr []"
  shows "executeTool rt fetch (JStr ''list-markets'') args =
           ''No markets found with the specified criteria.''"
proof -
  have "fetch_json fetch url = Inr data"
    using assms(2,3) by (simp add: fetch_json_def)
  then have "list_markets rt fetch args = Inr no_markets_text"
    using assms(1,4) by (simp add: list_markets_url_sent render_nothing)
  then show ?thesis
    by (simp add: executeTool_def executeTool_try_def no_markets_text_def)
qed

theorem C7_no_markets_witness:
  "list_markets_url v8_en_US (JObj []) =
     Inr \<lparr>url_text = ''https://gamma-api.polymarket.com/markets'', search = []\<rparr>
   \<and> serves (JArr []) \<lparr>url_text = ''https://gamma-api.polymarket.com/markets'', search = []\<rparr> =
       Response 200 (Inr ''[]'') (Inr (JArr []))
   \<and> response_ok 200
   \<and> executeTool v8_en_US (serves (JArr [])) (JStr ''list-markets'') (JObj []) =
       ''No markets found with the specified criteria.''"
proof -
  have h1: "list_markets_url v8_en_US (JObj []) =
     Inr \<lparr>url_text = ''https://gamma-api.polymarket.com/markets'', search = []\<rparr>"
    by code_simp
  have h2: "serves (JArr []) \<lparr>url_text = ''https://gamma-api.polymarket.com/markets'', search = []\<rparr> =
       Response 200 (Inr ''[]'') (Inr (JArr []))"
    by (simp add: serves_def)
  have h3: "response_ok 200"
    by (simp add: response_ok_def)
  have h4: "\<not> truthy (JArr []) \<or> JArr [] = JArr []"
    by simp
  from C7_no_markets [where fetch = "serves (JArr [])", OF h1 h2 h3 h4] h1 h2 h3 show ?thesis
    by simp
qed

subsection \<open>get-market-info\<close>

text \<open>
  The \<^verbatim>\<open>Outcome Prices\<close> line: \<^verbatim>\<open>N/A\<close> without \<^verbatim>\<open>outcomes\<close>; with an array of names and
  an \<^verbatim>\<open>outcomeprices\<close> to read from, each name with its price or \<^verbatim>\<open>N/A\<close>, joined by
  commas; and a \<^verbatim>\<open>TypeError\<close> where \<^verbatim>\<open>outcomeprices\<close> is \<^verbatim>\<open>undefined\<close> or \<^verbatim>\<open>null\<close> and
  there is a name to look up.
\<close>

lemma mapE_all:
  assumes "\<forall>x \<in> set xs. f x = Inr (g x)"
  shows "mapE f xs = Inr (map g xs)"
  using assms by (induction xs) simp_all

lemma outcome_prices_absent:
  "\<not> nullish data \<Longrightarrow> \<not> truthy (field data ''outcomes'') \<Longrightarrow>
   outcome_prices_text rt data = Inr ''N/A''"
  by (simp add: outcome_prices_text_def get_prop_present)

lemma outcome_prices_joined:
  assumes "\<not> nullish data"
    and "field data ''outcomes'' = JArr (map JStr names)"
    and "\<forall>n \<in> set names.
           get_computed rt (field data ''outcomeprices'') n = Inr (quoted n)
           \<and> to_string rt (js_or (quoted n) (JStr ''N/A'')) = Inr (shown n)"
  shows "outcome_prices_text rt data =
           Inr (join '', '' (map (\<lambda>n. n @ '': $'' @ shown n) names))"
proof -
  have "\<forall>x \<in> set (map JStr names).
      outcome_price_text rt data x =
        Inr ((\<lambda>x. case x of JStr n \<Rightarrow> n @ '': $'' @ shown n | _ \<Rightarrow> []) x)"
    using assms(1,3) by (auto simp: outcome_price_text_def get_prop_present)
  from mapE_all [OF this] show ?thesis
    using assms(1,2) by (simp add: outcome_prices_text_def get_prop_present comp_def)
qed

lemma outcome_prices_throw:
  assumes "\<not> nullish data"
    and "field data ''outcomes'' = JArr (JStr n # rest)"
    and "nullish (field data ''outcomeprices'')"
  shows "outcome_prices_text rt data =
           Inl (TypeError rt (ReadOfNullish (field data ''outcomeprices'') n))"
  using assms
  by (simp add: outcome_prices_text_def get_prop_present outcome_price_text_def get_computed_def)

text \<open>
  Claim C4 expects \<^verbatim>\<open>N/A\<close> for each price when the payload has \<^verbatim>\<open>outcomes\<close> and no
  \<^verbatim>\<open>outcomeprices\<close>. For the payload \<^verbatim>\<open>{"question": "Q", "outcomes": ["Yes", "No"]}\<close>
  the read \<^verbatim>\<open>data.outcomeprices[o]\<close> throws instead, and \<^verbatim>\<open>get-market-info\<close> returns
  the text of that error, no report.
\<close>

theorem C4_absent_prices_object:
  "field unpriced_market ''outcomes'' = JArr [JStr ''Yes'', JStr ''No'']
   \<and> field unpriced_market ''outcomeprices'' = JUndefined
   \<and> executeTool v8_en_US (serves unpriced_market) (JStr ''get-market-info'')
        (JObj [(''market_id'', JStr ''m1'')]) =
       ''Error: Cannot read properties of undefined (reading ''
       @ [CHR 0x27] @ ''Yes'' @ [CHR 0x27] @ '')''"
  by code_simp

subsection \<open>get-market-prices\<close>

text \<open>The prices of the example as doubles, and what \<^verbatim>\<open>toFixed\<close> writes for them.\<close>

lemma six_tenths_value: "six_tenths = Fin (5404319552844595 / 9007199254740992)"
  by code_simp

lemma four_tenths_value: "four_tenths = Fin (3602879701896397 / 9007199254740992)"
  by code_simp

lemma sixty:
  "truthy (JNum six_tenths)"
  "to_fixed 4 six_tenths = ''0.6000''"
  "to_fixed (Suc 0) (num_mult six_tenths (Fin 100)) = ''60.0''"
  by code_simp+

lemma forty:
  "truthy (JNum four_tenths)"
  "to_fixed 4 four_tenths = ''0.4000''"
  "to_fixed (Suc 0) (num_mult four_tenths (Fin 100)) = ''40.0''"
  by code_simp+

lemma append_lines_all:
  assumes "\<forall>x \<in> set xs. f x = Inr (line x)"
  shows "append_lines f xs result = Inr (result @ concat (map line xs))"
  using assms by (induction xs arbitrary: result) simp_all

lemma outcome_line_priced:
  assumes "\<not> nullish data"
    and "get_computed rt (field data ''outcomeprices'') n = Inr v"
    and "js_or v (JNum (Fin 0)) = JNum p"
  shows "outcome_line rt data (JStr n) =
           Inr (n @ '': $'' @ to_fixed 4 p @ '' ('' @ to_fixed 1 (num_mult p (Fin 100)) @ ''%)\<newline>'')"
  using assms by (simp add: outcome_line_def get_prop_present price_line_def)

text \<open>
  Claim C6. For a payload whose \<^verbatim>\<open>outcomes\<close> is an array of names and whose
  \<^verbatim>\<open>outcomeprices\<close> is truthy, each price read being a Number or falsy,
  \<^verbatim>\<open>get-market-prices\<close> returns the header, the line \<^verbatim>\<open>Current Prices:\<close> and one line
  per outcome, \<^verbatim>\<open><name>: $<price.toFixed(4)> (<(price * 100).toFixed(1)>%)\<close>, where the
  price is 0 when the mapping has none. Below \<open>10 ^ 21\<close> the two numbers are written
  with four digits and with one digit after the point. The example of the
  specification is the witness.
\<close>

theorem C6_price_lines:
  assumes "\<not> nullish args"
    and "to_string rt (field args ''market_id'') = Inr market_id"
    and "fetch \<lparr>url_text = baseUrl @ ''/markets/'' @ market_id, search = []\<rparr>
           = Response st answer (Inr data)"
    and "response_ok st"
    and "truthy data"
    and "to_string rt (js_or (js_or (field data ''question'') (field data ''title''))
                         (JStr ''Unknown Market'')) = Inr title"
    and "field data ''outcomes'' = JArr (map JStr names)"
    and "truthy (field data ''outcomeprices'')"
    and "\<forall>n \<in> set names.
           get_computed rt (field data ''outcomeprices'') n = Inr (quoted n)
           \<and> js_or (quoted n) (JNum (Fin 0)) = JNum (price n)"
  shows "executeTool rt fetch (JStr ''get-market-prices'') args =
           ''Market: '' @ title @ ''\<newline>\<newline>Current Prices:\<newline>''
           @ concat (map (\<lambda>n. n @ '': $'' @ to_fixed 4 (price n)
                               @ '' ('' @ to_fixed 1 (num_mult (price n) (Fin 100)) @ ''%)\<newline>'')
                       names)
         \<and> (\<forall>n \<in> set names. quoted n = JUndefined \<longrightarrow> price n = Fin 0)
         \<and> (\<forall>n r. price n = Fin r \<and> \<bar>r\<bar> < 10 ^ 21 \<longrightarrow>
                (\<exists>whole fraction. to_fixed 4 (price n) = whole @ ''.'' @ fraction
                    \<and> length fraction = 4))
         \<and> (\<forall>n r. num_mult (price n) (Fin 100) = Fin r \<and> \<bar>r\<bar> < 10 ^ 21 \<longrightarrow>
                (\<exists>whole fraction.
                    to_fixed 1 (num_mult (price n) (Fin 100)) = whole @ ''.'' @ fraction
                    \<and> length fraction = 1))"
proof (intro conjI)
  have present: "\<not> nullish data"
    using assms(5) by (rule truthy_not_nullish)
  have fetched: "callPolymarketAPI rt fetch (''/markets/'' @ market_id) None = Inr data"
    using assms(3,4) by (simp add: call_without_params fetch_json_def)
  have lines: "\<forall>x \<in> set (map JStr names).
      outcome_line rt data x =
        Inr ((\<lambda>x. case x of JStr n \<Rightarrow>
                n @ '': $'' @ to_fixed 4 (price n)
                @ '' ('' @ to_fixed 1 (num_mult (price n) (Fin 100)) @ ''%)\<newline>''
              | _ \<Rightarrow> []) x)"
    using assms(9) present by (auto simp: outcome_line_priced)
  have "market_prices rt data =
          Inr (''Market: '' @ title @ ''\<newline>\<newline>Current Prices:\<newline>''
               @ concat (map (\<lambda>n. n @ '': $'' @ to_fixed 4 (price n)
                               @ '' ('' @ to_fixed 1 (num_mult (price n) (Fin 100)) @ ''%)\<newline>'')
                           names))"
    using present assms(6,7,8)
    by (simp add: market_prices_def or_else_values and_then_def get_prop_present
        append_lines_all [OF lines] comp_def)
  then have "get_market_prices rt fetch args =
          Inr (''Market: '' @ title @ ''\<newline>\<newline>Current Prices:\<newline>''
               @ concat (map (\<lambda>n. n @ '': $'' @ to_fixed 4 (price n)
                               @ '' ('' @ to_fixed 1 (num_mult (price n) (Fin 100)) @ ''%)\<newline>'')
                           names))"
    using assms(1,2,5) fetched by (simp add: get_market_prices_def get_prop_present)
  then show "executeTool rt fetch (JStr ''get-market-prices'') args =
           ''Market: '' @ title @ ''\<newline>\<newline>Current Prices:\<newline>''
           @ concat (map (\<lambda>n. n @ '': $'' @ to_fixed 4 (price n)
                               @ '' ('' @ to_fixed 1 (num_mult (price n) (Fin 100)) @ ''%)\<newline>'')
                       names)"
    by (simp add: executeTool_def executeTool_try_def)
  show "\<forall>n \<in> set names. quoted n = JUndefined \<longrightarrow> price n = Fin 0"
    using assms(9) by (auto simp: js_or_def)
  show "\<forall>n r. price n = Fin r \<and> \<bar>r\<bar> < 10 ^ 21 \<longrightarrow>
          (\<exists>whole fraction. to_fixed 4 (price n) = whole @ ''.'' @ fraction
              \<and> length fraction = 4)"
    using to_fixed_places [of _ 4] by (metis zero_less_numeral)
  show "\<forall>n r. num_mult (price n) (Fin 100) = Fin r \<and> \<bar>r\<bar> < 10 ^ 21 \<longrightarrow>
          (\<exists>whole fraction.
              to_fixed 1 (num_mult (price n) (Fin 100)) = whole @ ''.'' @ fraction
              \<and> length fraction = 1)"
    using to_fixed_places [of _ 1] by (metis zero_less_one)
qed

theorem C6_price_lines_witness:
  "serves yes_no_market \<lparr>url_text = baseUrl @ ''/markets/'' @ ''m1'', search = []\<rparr> =
     Response 200
       (Inr (case JSON_stringify yes_no_market of None \<Rightarrow> [] | Some t \<Rightarrow> t)) (Inr yes_no_market)
   \<and> response_ok 200
   \<and> field yes_no_market ''outcomes'' = JArr (map JStr [''Yes'', ''No''])
   \<and> get_computed v8_en_US (field yes_no_market ''outcomeprices'') ''Yes'' = Inr (JNum six_tenths)
   \<and> get_computed v8_en_US (field yes_no_market ''outcomeprices'') ''No'' = Inr (JNum four_tenths)
   \<and> six_tenths = Fin (5404319552844595 / 9007199254740992)
   \<and> four_tenths = Fin (3602879701896397 / 9007199254740992)
   \<and> executeTool v8_en_US (serves yes_no_market) (JStr ''get-market-prices'')
        (JObj [(''market_id'', JStr ''m1'')]) =
       ''Market: Q\<newline>\<newline>Current Prices:\<newline>Yes: $0.6000 (60.0%)\<newline>No: $0.4000 (40.0%)\<newline>''"
proof -
  let ?args = "JObj [(''market_id'', JStr ''m1'')]"
  let ?price = "\<lambda>n. if n = ''Yes'' then six_tenths else four_tenths"
  let ?quoted = "\<lambda>n. JNum (?price n)"
  have h1: "\<not> nullish ?args"
    by simp
  have h2: "to_string v8_en_US (field ?args ''market_id'') = Inr ''m1''"
    by (simp add: field_def)
  have h3: "serves yes_no_market \<lparr>url_text = baseUrl @ ''/markets/'' @ ''m1'', search = []\<rparr> =
     Response 200
       (Inr (case JSON_stringify yes_no_market of None \<Rightarrow> [] | Some t \<Rightarrow> t)) (Inr yes_no_market)"
    by (simp add: serves_def)
  have h4: "response_ok 200"
    by (simp add: response_ok_def)
  have h5: "truthy yes_no_market"
    by (simp add: yes_no_market_def)
  have h6: "to_string v8_en_US (js_or (js_or (field yes_no_market ''question'')
              (field yes_no_market ''title'')) (JStr ''Unknown Market'')) = Inr ''Q''"
    by (simp add: yes_no_market_def field_def js_or_def)
  have h7: "field yes_no_market ''outcomes'' = JArr (map JStr [''Yes'', ''No''])"
    by (simp add: yes_no_market_def field_def)
  have prices: "field yes_no_market ''outcomeprices'' =
      JObj [(''Yes'', JNum six_tenths), (''No'', JNum four_tenths)]"
    by (simp add: yes_no_market_def field_def)
  have h8: "truthy (field yes_no_market ''outcomeprices'')"
    by (simp add: prices)
  have yes: "get_computed v8_en_US (field yes_no_market ''outcomeprices'') ''Yes''
               = Inr (JNum six_tenths)"
    and no: "get_computed v8_en_US (field yes_no_market ''outcomeprices'') ''No''
               = Inr (JNum four_tenths)"
    by (simp_all add: prices get_computed_def)
  have h9: "\<forall>n \<in> set [''Yes'', ''No''].
           get_computed v8_en_US (field yes_no_market ''outcomeprices'') n = Inr (?quoted n)
           \<and> js_or (?quoted n) (JNum (Fin 0)) = JNum (?price n)"
    using yes no by (simp add: js_or_def sixty forty)
  from C6_price_lines [where fetch = "serves yes_no_market" and quoted = ?quoted and price = ?price,
      OF h1 h2 h3 h4 h5 h6 h7 h8 h9, THEN conjunct1]
  have "executeTool v8_en_US (serves yes_no_market) (JStr ''get-market-prices'') ?args =
       ''Market: Q\<newline>\<newline>Current Prices:\<newline>Yes: $0.6000 (60.0%)\<newline>No: $0.4000 (40.0%)\<newline>''"
    by (simp add: sixty forty)
  with h3 h4 h7 yes no six_tenths_value four_tenths_value show ?thesis
    by simp
qed

subsection \<open>The event stream\<close>

lemma listening_step: "listening (sse_step s e) = listening s"
  by (cases e) (simp_all add: enqueue_def)

lemma listening_run: "listening (sse_run s es) = listening s"
  unfolding sse_run_def by (induction es arbitrary: s) (simp_all add: listening_step)

lemma frames_step: "\<exists>more. frames (sse_step s e) = frames s @ more"
  by (cases e) (simp_all add: enqueue_def)

lemma frames_run: "\<exists>more. frames (sse_run s es) = frames s @ more"
  unfolding sse_run_def
proof (induction es arbitrary: s)
  case Nil
  then show ?case by simp
next
  case (Cons e es)
  obtain a where a: "frames (sse_step s e) = frames s @ a"
    using frames_step by blast
  obtain b where "frames (foldl sse_step (sse_step s e) es) = frames (sse_step s e) @ b"
    using Cons.IH by blast
  then show ?case
    by (simp add: a)
qed

lemma quiet_step:
  "\<not> timer_set s \<Longrightarrow> \<not> timer_set (sse_step s e) \<and> frames (sse_step s e) = frames s"
  by (cases e) simp_all

lemma quiet_run:
  "\<not> timer_set s \<Longrightarrow> \<not> timer_set (sse_run s es) \<and> frames (sse_run s es) = frames s"
  unfolding sse_run_def
proof (induction es arbitrary: s)
  case Nil
  then show ?case by simp
next
  case (Cons e es)
  from Cons.prems have "\<not> timer_set (sse_step s e)" and "frames (sse_step s e) = frames s"
    using quiet_step by blast+
  with Cons.IH [of "sse_step s e"] show ?case
    by simp
qed

lemma abort_clears: "listening s \<Longrightarrow> \<not> timer_set (sse_step s Abort)"
  by simp

lemma run_snoc: "sse_run s (es @ [e]) = sse_step (sse_run s es) e"
  by (simp add: sse_run_def)

lemma established_text:
  "JSON_stringify established =
     Some (''{'' @ [CHR 0x22] @ ''jsonrpc'' @ [CHR 0x22] @ '':'' @ [CHR 0x22] @ ''2.0'' @ [CHR 0x22]
           @ '','' @ [CHR 0x22] @ ''method'' @ [CHR 0x22] @ '':'' @ [CHR 0x22]
           @ ''connection.established'' @ [CHR 0x22] @ ''}'')"
  by code_simp

lemma frames_start:
  "frames (sse_start b) =
     [''data: {'' @ [CHR 0x22] @ ''jsonrpc'' @ [CHR 0x22] @ '':'' @ [CHR 0x22] @ ''2.0'' @ [CHR 0x22]
      @ '','' @ [CHR 0x22] @ ''method'' @ [CHR 0x22] @ '':'' @ [CHR 0x22]
      @ ''connection.established'' @ [CHR 0x22] @ ''}\<newline>\<newline>'']"
  by (simp add: sse_start_def sendSSEMessage_def enqueue_def established_text)

lemma listening_start: "listening (sse_start b) = b"
  by (simp add: sse_start_def sendSSEMessage_def enqueue_def established_text)

text \<open>
  Claim C8. A request on a path ending in \<^verbatim>\<open>/sse\<close> that is not a preflight gets the
  event stream as its body. Whatever events follow, the first chunk of the stream is
  the \<^verbatim>\<open>data:\<close> frame of the notification \<^verbatim>\<open>connection.established\<close>. Where the request
  has a signal: once it has aborted, the timer is cleared and stays so, and no
  further chunk is ever enqueued.
\<close>

theorem C8_event_stream:
  assumes "ends_with (req_pathname req) ''/sse''" and "req_method req \<noteq> ''OPTIONS''"
  shows "body (handler rt fetch req) = StreamBody (sse_start (req_signal req))
         \<and> (\<forall>events. take 1 (frames (sse_run (sse_start (req_signal req)) events)) =
               [''data: {'' @ [CHR 0x22] @ ''jsonrpc'' @ [CHR 0x22] @ '':'' @ [CHR 0x22] @ ''2.0''
                @ [CHR 0x22] @ '','' @ [CHR 0x22] @ ''method'' @ [CHR 0x22] @ '':'' @ [CHR 0x22]
                @ ''connection.established'' @ [CHR 0x22] @ ''}\<newline>\<newline>''])
         \<and> (req_signal req \<longrightarrow>
               (\<forall>before after.
                  \<not> timer_set (sse_run (sse_run (sse_start (req_signal req)) (before @ [Abort])) after)
                  \<and> frames (sse_run (sse_run (sse_start (req_signal req)) (before @ [Abort])) after)
                      = frames (sse_run (sse_start (req_signal req)) (before @ [Abort]))))"
proof (intro conjI allI impI)
  show "body (handler rt fetch req) = StreamBody (sse_start (req_signal req))"
    using assms by (simp add: handler_def)
next
  fix events
  obtain more where
    "frames (sse_run (sse_start (req_signal req)) events)
       = frames (sse_start (req_signal req)) @ more"
    using frames_run by blast
  then show "take 1 (frames (sse_run (sse_start (req_signal req)) events)) =
               [''data: {'' @ [CHR 0x22] @ ''jsonrpc'' @ [CHR 0x22] @ '':'' @ [CHR 0x22] @ ''2.0''
                @ [CHR 0x22] @ '','' @ [CHR 0x22] @ ''method'' @ [CHR 0x22] @ '':'' @ [CHR 0x22]
                @ ''connection.established'' @ [CHR 0x22] @ ''}\<newline>\<newline>'']"
    by (simp add: frames_start)
next
  fix before after
  assume "req_signal req"
  then have "listening (sse_run (sse_start (req_signal req)) before)"
    by (simp add: listening_run listening_start)
  then have quiet: "\<not> timer_set (sse_run (sse_start (req_signal req)) (before @ [Abort]))"
    unfolding run_snoc by (rule abort_clears)
  from quiet_run [OF quiet, of after]
  show "\<not> timer_set (sse_run (sse_run (sse_start (req_signal req)) (before @ [Abort])) after)"
    and "frames (sse_run (sse_run (sse_start (req_signal req)) (before @ [Abort])) after)
           = frames (sse_run (sse_start (req_signal req)) (before @ [Abort]))"
    by simp_all
qed

theorem C8_event_stream_witness:
  "ends_with (req_pathname open_sse) ''/sse'' \<and> req_method open_sse \<noteq> ''OPTIONS''
   \<and> req_signal open_sse
   \<and> body (handler v8_en_US offline open_sse) = StreamBody (sse_start True)
   \<and> take 1 (frames (sse_run (sse_start True) [Tick, Tick, Abort, Tick])) =
        [''data: {'' @ [CHR 0x22] @ ''jsonrpc'' @ [CHR 0x22] @ '':'' @ [CHR 0x22] @ ''2.0''
         @ [CHR 0x22] @ '','' @ [CHR 0x22] @ ''method'' @ [CHR 0x22] @ '':'' @ [CHR 0x22]
         @ ''connection.established'' @ [CHR 0x22] @ ''}\<newline>\<newline>'']
   \<and> \<not> timer_set (sse_run (sse_run (sse_start True) ([Tick, Tick] @ [Abort])) [Tick, Tick])
   \<and> frames (sse_run (sse_run (sse_start True) ([Tick, Tick] @ [Abort])) [Tick, Tick])
       = frames (sse_run (sse_start True) ([Tick, Tick] @ [Abort]))"
proof -
  have h1: "ends_with (req_pathname open_sse) ''/sse''"
    by (simp add: open_sse_def ends_with_def)
  have h2: "req_method open_sse \<noteq> ''OPTIONS''"
    by (simp add: open_sse_def)
  have h3: "req_signal open_sse"
    by (simp add: open_sse_def)
  have s: "req_signal open_sse = True"
    by (simp add: open_sse_def)
  note c = C8_event_stream [OF h1 h2, of v8_en_US offline, unfolded s]
  note first = c [THEN conjunct2, THEN conjunct1, rule_format, of "[Tick, Tick, Abort, Tick]"]
  note after = c [THEN conjunct2, THEN conjunct2, rule_format, OF TrueI,
      of "[Tick, Tick]" "[Tick, Tick]"]
  from c [THEN conjunct1] first after h1 h2 h3 show ?thesis
    by blast
qed

end
